theory Spec2Isabelle
  imports Complex_Main "HOL-Library.Sublist"
begin

section \<open>Python exceptions and tensors\<close>

text \<open>
  The exceptions the modelled code can raise. A function that can raise returns
  \<open>error + 'a\<close>, with \<open>Inl\<close> for the exception.
\<close>

datatype error =
  ValueError | KeyError | IndexError | AttributeError | RuntimeError | TypeError

text \<open>
  A one-dimensional float tensor is the list of its entries. Entries are real numbers:
  the arithmetic is exact, rounding and overflow of the float type are left out. The only
  non-finite value that the modelled code itself can create from finite entries is the
  quotient by a zero total, which in torch is \<open>nan\<close> or \<open>inf\<close> and never an
  exception; a quotient therefore has a type of its own.
\<close>

type_synonym tensor = "real list"

datatype quotient = Finite real | NonFinite

definition torch_div :: "real \<Rightarrow> real \<Rightarrow> quotient" where
  "torch_div a b = (if b = 0 then NonFinite else Finite (a / b))"

definition torch_sum :: "tensor \<Rightarrow> real" where
  "torch_sum xs = sum_list xs"

definition ones_like :: "tensor \<Rightarrow> tensor" where
  "ones_like xs = replicate (length xs) 1"

text \<open>
  \<open>a * b\<close> on one-dimensional tensors: entry by entry when the lengths agree, a tensor
  of length one is broadcast, any other pair of lengths raises \<open>RuntimeError\<close>.
\<close>

definition torch_mul :: "tensor \<Rightarrow> tensor \<Rightarrow> error + tensor" where
  "torch_mul xs ys =
     (if length xs = length ys then Inr (map2 (*) xs ys)
      else if length xs = 1 then Inr (map (\<lambda>y. hd xs * y) ys)
      else if length ys = 1 then Inr (map (\<lambda>x. x * hd ys) xs)
      else Inl RuntimeError)"

section \<open>Weighted batch reduction\<close>

text \<open>
  \<open>get_batch_metric_reduce_fn(sample_weight)\<close> returns the closure
  \<open>_batch_metric_reduce(scores, weights)\<close>; the model is the curried function.
\<close>

definition get_batch_metric_reduce_fn ::
  "bool \<Rightarrow> tensor \<Rightarrow> tensor \<Rightarrow> error + (quotient \<times> real \<times> real)" where
  "get_batch_metric_reduce_fn sample_weight scores weights =
     (let weights = (if \<not> sample_weight then ones_like weights else weights);
          w_total = torch_sum weights
      in case torch_mul scores weights of
           Inl e \<Rightarrow> Inl e
         | Inr sw \<Rightarrow>
             (let w_score_total = torch_sum sw;
                  w_mean = torch_div w_score_total w_total
              in Inr (w_mean, w_score_total, w_total)))"

section \<open>Sequencing calls that can raise\<close>

fun and_then :: "error + 'a \<Rightarrow> ('a \<Rightarrow> error + 'b) \<Rightarrow> error + 'b" where
  "and_then (Inl e) f = Inl e"
| "and_then (Inr x) f = f x"

text \<open>
  \<open>d[k]\<close> on a dict whose keys are data, and \<open>obj.k\<close> on an attribute that a method
  creates: \<open>None\<close> stands for an absent key or attribute.
\<close>

fun getitem :: "'a option \<Rightarrow> error + 'a" where
  "getitem None = Inl KeyError"
| "getitem (Some v) = Inr v"

fun getattr :: "'a option \<Rightarrow> error + 'a" where
  "getattr None = Inl AttributeError"
| "getattr (Some v) = Inr v"

text \<open>A list comprehension whose element expression can raise: the first exception wins.\<close>

fun map_raise :: "('a \<Rightarrow> error + 'b) \<Rightarrow> 'a list \<Rightarrow> error + 'b list" where
  "map_raise f [] = Inr []"
| "map_raise f (x # xs) =
     and_then (f x) (\<lambda>y. and_then (map_raise f xs) (\<lambda>ys. Inr (y # ys)))"

text \<open>\<open>xs[i]\<close> on a Python list: a negative index counts from the end.\<close>

definition list_getitem :: "'a list \<Rightarrow> int \<Rightarrow> error + 'a" where
  "list_getitem xs i =
     (let n = int (length xs); j = (if i < 0 then n + i else i)
      in if 0 \<le> j \<and> j < n then Inr (xs ! nat j) else Inl IndexError)"

text \<open>\<open>p in s\<close> on Python strings: \<open>p\<close> occurs in \<open>s\<close> as a contiguous substring.\<close>

fun str_contains :: "string \<Rightarrow> string \<Rightarrow> bool" where
  "str_contains p [] = (p = [])"
| "str_contains p (c # cs) = (prefix p (c # cs) \<or> str_contains p cs)"

section \<open>The simulation model\<close>

text \<open>
  The hyperparameters that \<open>save_hyperparameters\<close> collects from the arguments of
  \<open>__init__\<close>: the seven named arguments, and the five that the class reads as
  \<open>self.hparams.name\<close> and that arrive through \<open>**kwargs\<close>.
\<close>

record hparams =
  optimizer :: string
  lr :: real
  weight_decay :: real
  lr_schedule :: bool
  ints_transform :: string
  mz_max :: real
  mz_bin_res :: real
  train_sample_weight :: bool
  eval_sample_weight :: bool
  lr_decay_rate :: real
  lr_warmup_steps :: int
  lr_decay_steps :: int

text \<open>
  The batch dict: the four entries \<open>step\<close> reads and the remaining entries, which only
  \<open>forward\<close> sees. The dict \<open>forward\<close> returns has the keys \<open>pred_mzs\<close>,
  \<open>pred_logprobs\<close> and \<open>pred_batch_idxs\<close>.
\<close>

record 'b batch =
  spec_mzs :: tensor
  spec_ints :: tensor
  spec_batch_idxs :: "int list"
  weight :: tensor
  other :: 'b

record fwd_out =
  fwd_pred_mzs :: tensor
  fwd_pred_logprobs :: tensor
  fwd_pred_batch_idxs :: "int list"

text \<open>One call of \<open>self.log\<close>.\<close>

record log_entry =
  log_name :: string
  log_value :: quotient
  log_batch_size :: "int option"
  log_prog_bar :: bool

text \<open>
  The model object. \<open>metric_d\<close> is a dict in insertion order whose values hold, at
  positions 0 and 1, the lists of weighted score totals and of weight totals accumulated
  over the batches. \<open>logged\<close> is what \<open>self.log\<close> has received so far.
  \<open>subclass_attrs\<close> names the instance attributes that a subclass has set: the class
  and its bases define none called \<open>optimizer\<close>.
\<close>

record ('p, 'b) sim_model =
  hparams :: hparams
  parameters :: 'p
  forward :: "'b batch \<Rightarrow> error + fwd_out"
  metric_d :: "(string \<times> (real list \<times> real list)) list"
  logged :: "log_entry list"
  subclass_attrs :: "string list"

text \<open>
  The helpers of \<open>massspecgym.simulation_utils\<close>, whose code is not part of the sources
  at hand: each is a parameter, and may raise. \<open>sparse_cosine_distance\<close> is called with
  keyword arguments; its arguments are here in the order true mzs, true log-probabilities,
  true batch indices, predicted mzs, predicted log-probabilities, predicted batch indices,
  \<open>mz_max\<close>, \<open>mz_bin_res\<close>. \<open>get_ints_transform_func name\<close> is the transform that
  \<open>_setup_spec_fns\<close> stores for the configured name.
\<close>

record sim_utils =
  sparse_cosine_distance ::
    "tensor \<Rightarrow> tensor \<Rightarrow> int list \<Rightarrow> tensor \<Rightarrow> tensor \<Rightarrow> int list \<Rightarrow> real \<Rightarrow> real
     \<Rightarrow> error + tensor"
  safelog :: "tensor \<Rightarrow> error + tensor"
  batched_l1_normalize :: "tensor \<Rightarrow> int list \<Rightarrow> error + tensor"
  get_ints_transform_func :: "string \<Rightarrow> tensor \<Rightarrow> error + tensor"
  get_ints_untransform_func :: "string \<Rightarrow> tensor \<Rightarrow> int list \<Rightarrow> error + tensor"

text \<open>
  The optimizer classes of torch and \<open>build_lr_scheduler\<close> of
  \<open>massspecgym.simulation_utils.nn_utils\<close>: parameters as well. \<open>torch_optim cls ps l wd\<close>
  is the constructor call \<open>cls(ps, lr=l, weight_decay=wd)\<close>.
\<close>

datatype optimizer_cls = Adam | AdamW | SGD

record ('p, 'o, 's) optim_lib =
  torch_optim :: "optimizer_cls \<Rightarrow> 'p \<Rightarrow> real \<Rightarrow> real \<Rightarrow> error + 'o"
  build_lr_scheduler :: "'o \<Rightarrow> real \<Rightarrow> int \<Rightarrow> int \<Rightarrow> error + 's"

subsection \<open>configure_optimizers\<close>

record 's sched_conf =
  scheduler :: 's
  frequency :: int
  interval :: string

datatype ('o, 's) conf_val = Optimizer 'o | LrScheduler "'s sched_conf"

text \<open>
  The \<open>else\<close> branch formats \<open>self.optimizer\<close> into the message before it can raise
  \<open>ValueError\<close>: the attribute lookup raises \<open>AttributeError\<close> unless a subclass has
  set an attribute of that name.
\<close>

definition unknown_optimizer :: "('p, 'b) sim_model \<Rightarrow> error" where
  "unknown_optimizer self =
     (if ''optimizer'' \<in> set (subclass_attrs self) then ValueError else AttributeError)"

definition configure_optimizers ::
  "('p, 'o, 's) optim_lib \<Rightarrow> ('p, 'b) sim_model \<Rightarrow> error + (string \<rightharpoonup> ('o, 's) conf_val)" where
  "configure_optimizers L self =
     and_then
       (if optimizer (hparams self) = ''adam'' then Inr Adam
        else if optimizer (hparams self) = ''adamw'' then Inr AdamW
        else if optimizer (hparams self) = ''sgd'' then Inr SGD
        else Inl (unknown_optimizer self))
       (\<lambda>optimizer_cls.
     and_then
       (torch_optim L optimizer_cls (parameters self)
          (lr (hparams self)) (weight_decay (hparams self)))
       (\<lambda>opt.
     let ret = [''optimizer'' \<mapsto> Optimizer opt] in
     if lr_schedule (hparams self) then
       and_then (build_lr_scheduler L opt (lr_decay_rate (hparams self))
                   (lr_warmup_steps (hparams self)) (lr_decay_steps (hparams self))) (\<lambda>sched.
       Inr (ret(''lr_scheduler'' \<mapsto>
              LrScheduler \<lparr>scheduler = sched, frequency = 1, interval = ''step''\<rparr>)))
     else Inr ret))"

subsection \<open>Spectrum preprocessing, loss and cosine similarity\<close>

text \<open>
  \<open>_preproc_spec\<close>, without the leading underscore that an identifier cannot have here.
  \<open>self.ints_transform_func\<close> is \<open>get_ints_transform_func(hparams.ints_transform)\<close> and
  \<open>self.ints_normalize_func\<close> is \<open>batched_l1_normalize\<close>, as \<open>_setup_spec_fns\<close> sets
  them.
\<close>

definition preproc_spec ::
  "sim_utils \<Rightarrow> ('p, 'b) sim_model \<Rightarrow> tensor \<Rightarrow> tensor \<Rightarrow> int list
   \<Rightarrow> error + (tensor \<times> tensor \<times> int list)" where
  "preproc_spec U self mzs ints idxs =
     and_then (get_ints_transform_func U (ints_transform (hparams self))
                 (map (\<lambda>x. x * 1000) ints)) (\<lambda>ints1.
     and_then (batched_l1_normalize U ints1 idxs) (\<lambda>ints2.
     and_then (safelog U ints2) (\<lambda>ints3.
     Inr (mzs, ints3, idxs))))"

text \<open>The closure \<open>_loss_fn\<close> that \<open>_setup_loss_fn\<close> installs as \<open>self.loss_fn\<close>.\<close>

definition loss_fn ::
  "sim_utils \<Rightarrow> ('p, 'b) sim_model \<Rightarrow> tensor \<Rightarrow> tensor \<Rightarrow> int list \<Rightarrow> tensor \<Rightarrow> tensor \<Rightarrow> int list
   \<Rightarrow> error + tensor" where
  "loss_fn U self true_mzs true_logprobs true_batch_idxs pred_mzs pred_logprobs pred_batch_idxs =
     sparse_cosine_distance U true_mzs true_logprobs true_batch_idxs
       pred_mzs pred_logprobs pred_batch_idxs
       (mz_max (hparams self)) (mz_bin_res (hparams self))"

text \<open>
  The closure \<open>_cos_sim_fn\<close> that \<open>get_cos_sim_fn(untransform)\<close> returns; its positional
  order is predicted first, true second.
\<close>

definition untransform_logprobs ::
  "sim_utils \<Rightarrow> ('p, 'b) sim_model \<Rightarrow> tensor \<Rightarrow> int list \<Rightarrow> error + tensor" where
  "untransform_logprobs U self logprobs idxs =
     and_then (get_ints_untransform_func U (ints_transform (hparams self))
                 (map exp logprobs) idxs) (\<lambda>a.
     and_then (batched_l1_normalize U a idxs) (\<lambda>b.
     safelog U b))"

definition get_cos_sim_fn ::
  "sim_utils \<Rightarrow> ('p, 'b) sim_model \<Rightarrow> bool \<Rightarrow> tensor \<Rightarrow> tensor \<Rightarrow> int list
   \<Rightarrow> tensor \<Rightarrow> tensor \<Rightarrow> int list \<Rightarrow> error + tensor" where
  "get_cos_sim_fn U self untransform pred_mzs pred_logprobs pred_batch_idxs
       true_mzs true_logprobs true_batch_idxs =
     and_then
       (if untransform then
          and_then (untransform_logprobs U self true_logprobs true_batch_idxs) (\<lambda>t.
          and_then (untransform_logprobs U self pred_logprobs pred_batch_idxs) (\<lambda>p.
          Inr (t, p)))
        else Inr (true_logprobs, pred_logprobs))
       (\<lambda>(true_logprobs, pred_logprobs).
     and_then
       (sparse_cosine_distance U true_mzs true_logprobs true_batch_idxs
          pred_mzs pred_logprobs pred_batch_idxs
          (mz_max (hparams self)) (mz_bin_res (hparams self)))
       (\<lambda>cos_dist. Inr (map (\<lambda>d. 1 - d) cos_dist)))"

subsection \<open>step\<close>

text \<open>The reduce functions that \<open>_setup_metric_fns\<close> installs.\<close>

definition train_reduce_fn ::
  "('p, 'b) sim_model \<Rightarrow> tensor \<Rightarrow> tensor \<Rightarrow> error + (quotient \<times> real \<times> real)" where
  "train_reduce_fn self = get_batch_metric_reduce_fn (train_sample_weight (hparams self))"

definition eval_reduce_fn ::
  "('p, 'b) sim_model \<Rightarrow> tensor \<Rightarrow> tensor \<Rightarrow> error + (quotient \<times> real \<times> real)" where
  "eval_reduce_fn self = get_batch_metric_reduce_fn (eval_sample_weight (hparams self))"

text \<open>\<open>torch.max\<close> of an integer tensor: an empty tensor raises \<open>RuntimeError\<close>.\<close>

definition torch_max :: "int list \<Rightarrow> error + int" where
  "torch_max xs = (case xs of [] \<Rightarrow> Inl RuntimeError | y # ys \<Rightarrow> Inr (fold max ys y))"

datatype out_val = FloatT tensor | LongT "int list" | ScalarT quotient

text \<open>\<open>step\<close> returns its dict and leaves one more entry in the log.\<close>

definition step ::
  "sim_utils \<Rightarrow> ('p, 'b) sim_model \<Rightarrow> 'b batch \<Rightarrow> string
   \<Rightarrow> error + ((string \<rightharpoonup> out_val) \<times> ('p, 'b) sim_model)" where
  "step U self batch metric_pref =
     and_then (preproc_spec U self (spec_mzs batch) (spec_ints batch) (spec_batch_idxs batch))
       (\<lambda>(true_mzs, true_logprobs, true_batch_idxs).
     and_then (forward self batch) (\<lambda>out_d.
     let p_mzs = fwd_pred_mzs out_d;
         p_logprobs = fwd_pred_logprobs out_d;
         p_batch_idxs = fwd_pred_batch_idxs out_d in
     and_then (loss_fn U self true_mzs true_logprobs true_batch_idxs
                 p_mzs p_logprobs p_batch_idxs) (\<lambda>loss.
     let reduce_fn =
           (if metric_pref = ''train_'' then train_reduce_fn self else eval_reduce_fn self) in
     and_then (reduce_fn loss (weight batch)) (\<lambda>(mean_loss, w_score_total, w_total).
     and_then (torch_max p_batch_idxs) (\<lambda>m.
     Inr ([''loss'' \<mapsto> ScalarT mean_loss,
           ''pred_mzs'' \<mapsto> FloatT p_mzs,
           ''pred_logprobs'' \<mapsto> FloatT p_logprobs,
           ''pred_batch_idxs'' \<mapsto> LongT p_batch_idxs,
           ''true_mzs'' \<mapsto> FloatT true_mzs,
           ''true_logprobs'' \<mapsto> FloatT true_logprobs,
           ''true_batch_idxs'' \<mapsto> LongT true_batch_idxs],
          self\<lparr>logged := logged self @
                 [\<lparr>log_name = metric_pref @ ''loss_step'', log_value = mean_loss,
                   log_batch_size = Some (m + 1), log_prog_bar = True\<rparr>]\<rparr>))))))"

subsection \<open>End of an epoch\<close>

text \<open>\<open>torch.stack\<close> of a list of scalar tensors: an empty list raises \<open>RuntimeError\<close>.\<close>

definition torch_stack :: "real list \<Rightarrow> error + tensor" where
  "torch_stack xs = (if xs = [] then Inl RuntimeError else Inr xs)"

text \<open>\<open>del d[k]\<close> on a dict in insertion order.\<close>

definition dict_del :: "('k \<times> 'v) list \<Rightarrow> 'k \<Rightarrow> error + ('k \<times> 'v) list" where
  "dict_del d k =
     (if k \<in> fst ` set d then Inr (filter (\<lambda>kv. fst kv \<noteq> k) d) else Inl KeyError)"

text \<open>The loop over the selected metrics, the same in both hooks.\<close>

fun log_epoch_metrics ::
  "(string \<times> (real list \<times> real list)) list \<Rightarrow> ('p, 'b) sim_model
   \<Rightarrow> error + ('p, 'b) sim_model" where
  "log_epoch_metrics [] self = Inr self"
| "log_epoch_metrics ((k, v) # kvs) self =
     and_then (torch_stack (fst v)) (\<lambda>v0.
     and_then (torch_stack (snd v)) (\<lambda>v1.
     let wmean_v = torch_div (torch_sum v0) (torch_sum v1);
         self1 = self\<lparr>logged := logged self @
                   [\<lparr>log_name = k, log_value = wmean_v,
                     log_batch_size = None, log_prog_bar = False\<rparr>]\<rparr> in
     and_then (dict_del (metric_d self1) k) (\<lambda>d.
     log_epoch_metrics kvs (self1\<lparr>metric_d := d\<rparr>))))"

definition on_train_epoch_end :: "('p, 'b) sim_model \<Rightarrow> error + ('p, 'b) sim_model" where
  "on_train_epoch_end self =
     log_epoch_metrics (filter (\<lambda>kv. str_contains ''train_'' (fst kv)) (metric_d self)) self"

definition on_validation_epoch_end :: "('p, 'b) sim_model \<Rightarrow> error + ('p, 'b) sim_model" where
  "on_validation_epoch_end self =
     log_epoch_metrics (filter (\<lambda>kv. str_contains ''val_'' (fst kv)) (metric_d self)) self"

section \<open>Datasets\<close>

text \<open>
  A spectrum as \<open>load_from_mgf\<close> of matchms yields it: its metadata dict and its peaks.
  \<open>s.get(k)\<close> is \<open>metadata s k\<close>, with \<open>None\<close> for an absent key; \<open>s.metadata[k]\<close>
  raises \<open>KeyError\<close> for an absent key.
\<close>

record 'v spectrum =
  metadata :: "string \<rightharpoonup> 'v"
  peaks :: "(real \<times> real) list"

text \<open>
  The two transforms are callables handed to the constructor; they may raise.
  \<open>mol_preproc\<close> receives what \<open>get('smiles')\<close> returns, so \<open>None\<close> when the spectrum
  has no smiles.
\<close>

record ('v, 'sp, 'm) mass_spec_dataset =
  mgf_pth :: string
  spectra :: "'v spectrum list"
  spectra_idx :: "int list"
  spec_preproc :: "'v spectrum \<Rightarrow> error + 'sp"
  mol_preproc :: "'v option \<Rightarrow> error + 'm"

text \<open>
  \<open>__init__\<close>. The parser \<open>load_from_mgf\<close> and Python's \<open>int\<close> on a metadata value (or on
  \<open>None\<close>) are parameters.
\<close>

definition MassSpecDataset_init ::
  "(string \<Rightarrow> error + 'v spectrum list) \<Rightarrow> ('v option \<Rightarrow> error + int) \<Rightarrow> string
   \<Rightarrow> ('v spectrum \<Rightarrow> error + 'sp) \<Rightarrow> ('v option \<Rightarrow> error + 'm)
   \<Rightarrow> error + ('v, 'sp, 'm) mass_spec_dataset" where
  "MassSpecDataset_init load_from_mgf py_int pth sp_pre mol_pre =
     and_then (load_from_mgf pth) (\<lambda>ss.
     and_then (map_raise (\<lambda>s. py_int (metadata s ''id'')) ss) (\<lambda>idx.
     Inr \<lparr>mgf_pth = pth, spectra = ss, spectra_idx = idx,
          spec_preproc = sp_pre, mol_preproc = mol_pre\<rparr>))"

definition MassSpecDataset_len :: "('v, 'sp, 'm) mass_spec_dataset \<Rightarrow> int" where
  "MassSpecDataset_len self = int (length (spectra self))"

datatype ('sp, 'm, 'v) item_val = Spec 'sp | Mol 'm | Meta 'v

definition MassSpecDataset_getitem ::
  "('v, 'sp, 'm) mass_spec_dataset \<Rightarrow> int \<Rightarrow> error + (string \<rightharpoonup> ('sp, 'm, 'v) item_val)" where
  "MassSpecDataset_getitem self i =
     and_then (list_getitem (spectra self) i) (\<lambda>s.
     and_then (spec_preproc self s) (\<lambda>sp.
     and_then (mol_preproc self (metadata s ''smiles'')) (\<lambda>m.
     let item = [''spec'' \<mapsto> Spec sp, ''mol'' \<mapsto> Mol m] in
     and_then (map_raise (\<lambda>k. and_then (getitem (metadata s k)) (\<lambda>v. Inr (k, Meta v)))
                 [''precursor_mz'', ''adduct'']) (\<lambda>kvs.
     Inr (fold (\<lambda>kv d. d(fst kv \<mapsto> snd kv)) kvs item)))))"

text \<open>
  \<open>RetrievalDataset\<close> is introduced by \<open>def\<close>, with one parameter (named
  \<open>MassSpecDataset\<close>). A call runs the two inner \<open>def\<close> statements, the first of which
  evaluates its default argument \<open>MolToInChIKey()\<close>, and falls off the end. The
  constructor of \<open>MolToInChIKey\<close> belongs to \<open>massspecgym.transforms\<close>, whose code is
  not part of the sources at hand: the outcome of that call is a parameter. Python's
  \<open>None\<close> is \<open>None\<close>; a dataset object would be \<open>Some\<close>.
\<close>

definition RetrievalDataset ::
  "error + 't \<Rightarrow> 'x \<Rightarrow> error + ('v, 'sp, 'm) mass_spec_dataset option" where
  "RetrievalDataset MolToInChIKey x =
     and_then MolToInChIKey (\<lambda>candidate_mol_transform. Inr None)"

section \<open>The data module\<close>

text \<open>
  What \<open>pd.read_csv\<close> returns: the columns in file order, each with its name and its
  cells. A series is the list of its (index label, value) pairs.
\<close>

datatype cell = IntCell int | StrCell string

type_synonym data_frame = "(string \<times> cell list) list"

type_synonym series = "(cell \<times> cell) list"

definition df_columns :: "data_frame \<Rightarrow> string list" where
  "df_columns df = map fst df"

text \<open>\<open>df.set_index(a)[b]\<close>.\<close>

definition set_index_getitem :: "data_frame \<Rightarrow> string \<Rightarrow> string \<Rightarrow> error + series" where
  "set_index_getitem df a b =
     and_then (getitem (map_of df a)) (\<lambda>labels.
     and_then (getitem (map_of df b)) (\<lambda>vals.
     Inr (zip labels vals)))"

text \<open>
  \<open>s[i]\<close> for an integer label: the values at every position whose label is \<open>i\<close>. One
  value is returned as a scalar, several as a series, none raises \<open>KeyError\<close>. (An
  index that holds no integer at all is outside this model: pandas before version 3 reads
  \<open>i\<close> as a position there.)
\<close>

definition series_getitem :: "series \<Rightarrow> int \<Rightarrow> error + cell list" where
  "series_getitem s i =
     (let vs = map snd (filter (\<lambda>kv. fst kv = IntCell i) s)
      in if vs = [] then Inl KeyError else Inr vs)"

text \<open>
  \<open>np.array\<close> of the looked-up values, as the list of its rows: scalars give a
  one-dimensional array (rows of length one), series of one common length a
  two-dimensional one, anything ragged raises \<open>ValueError\<close> (as numpy does from
  version 1.24 on).
\<close>

definition np_array :: "cell list list \<Rightarrow> error + cell list list" where
  "np_array rs =
     (case rs of
        [] \<Rightarrow> Inr []
      | r # rs' \<Rightarrow> if list_all (\<lambda>r'. length r' = length r) rs' then Inr rs else Inl ValueError)"

text \<open>
  \<open>np.where(split_mask == name)[0]\<close>: the first-axis index of every matching cell, in
  row-major order.
\<close>

definition np_where0 :: "string \<Rightarrow> cell list list \<Rightarrow> nat list" where
  "np_where0 name split_mask =
     concat (map (\<lambda>ir. replicate (length (filter (\<lambda>c. c = StrCell name) (snd ir))) (fst ir))
                 (enumerate 0 split_mask))"

text \<open>
  The data module. \<open>split\<close> and the three subsets are attributes that \<open>prepare_data\<close>
  and \<open>setup\<close> create: \<open>None\<close> until then. A \<open>Subset\<close> of the dataset is the list
  of its indices.
\<close>

record ('v, 'sp, 'm) data_module =
  dataset :: "('v, 'sp, 'm) mass_spec_dataset"
  split_pth :: string
  batch_size :: int
  num_workers :: int
  split :: "series option"
  train_dataset :: "nat list option"
  val_dataset :: "nat list option"
  test_dataset :: "nat list option"

definition MassSpecDataModule_init ::
  "('v, 'sp, 'm) mass_spec_dataset \<Rightarrow> string \<Rightarrow> int \<Rightarrow> int \<Rightarrow> ('v, 'sp, 'm) data_module" where
  "MassSpecDataModule_init ds pth bs nw =
     \<lparr>dataset = ds, split_pth = pth, batch_size = bs, num_workers = nw,
      split = None, train_dataset = None, val_dataset = None, test_dataset = None\<rparr>"

text \<open>
  \<open>prepare_data\<close>; \<open>pd.read_csv\<close> is a parameter. The method \<open>setup\<close> follows under
  a longer name, \<open>setup\<close> being a reserved word here.
\<close>

definition prepare_data ::
  "(string \<Rightarrow> error + data_frame) \<Rightarrow> ('v, 'sp, 'm) data_module
   \<Rightarrow> error + ('v, 'sp, 'm) data_module" where
  "prepare_data read_csv self =
     and_then (read_csv (split_pth self)) (\<lambda>df.
     if set (df_columns df) \<noteq> {''id'', ''fold''} then Inl ValueError
     else
       and_then (set_index_getitem df ''id'' ''fold'') (\<lambda>s.
       if set (map snd s) \<noteq> {StrCell ''train'', StrCell ''val'', StrCell ''test''}
       then Inl ValueError
       else Inr (self\<lparr>split := Some s\<rparr>)))"

definition MassSpecDataModule_setup ::
  "('v, 'sp, 'm) data_module \<Rightarrow> error + ('v, 'sp, 'm) data_module" where
  "MassSpecDataModule_setup self =
     and_then (getattr (split self)) (\<lambda>s.
     and_then (map_raise (series_getitem s) (spectra_idx (dataset self))) (\<lambda>vals.
     and_then (np_array vals) (\<lambda>split_mask.
     Inr (self\<lparr>train_dataset := Some (np_where0 ''train'' split_mask),
               val_dataset := Some (np_where0 ''val'' split_mask),
               test_dataset := Some (np_where0 ''test'' split_mask)\<rparr>))))"


section \<open>Notions used to state the properties\<close>

text \<open>
  The cells of a column of a frame (none when there is no such column), frames whose
  columns all have the same number of cells, as every \<open>DataFrame\<close> has, and the three
  fold names.
\<close>

definition df_column :: "data_frame \<Rightarrow> string \<Rightarrow> cell list" where
  "df_column df c = (case map_of df c of None \<Rightarrow> [] | Some vs \<Rightarrow> vs)"

definition df_rectangular :: "data_frame \<Rightarrow> bool" where
  "df_rectangular df = (\<forall>c \<in> set df. \<forall>c' \<in> set df. length (snd c) = length (snd c'))"

definition folds :: "cell set" where
  "folds = {StrCell ''train'', StrCell ''val'', StrCell ''test''}"

text \<open>
  The label \<open>i\<close> occurs at exactly one position of the index of a series.
\<close>

definition appears_once :: "series \<Rightarrow> int \<Rightarrow> bool" where
  "appears_once s i = (length (filter (\<lambda>kv. fst kv = IntCell i) s) = 1)"

text \<open>
  What the hooks at the end of an epoch log for one entry of \<open>metric_d\<close>: its key, with
  the sum of the weighted score totals divided by the sum of the weight totals.
\<close>

definition epoch_entry :: "string \<times> (real list \<times> real list) \<Rightarrow> log_entry" where
  "epoch_entry kv =
     \<lparr>log_name = fst kv,
      log_value = torch_div (sum_list (fst (snd kv))) (sum_list (snd (snd kv))),
      log_batch_size = None, log_prog_bar = False\<rparr>"

section \<open>Example data\<close>

text \<open>
  Two spectra, the second without an adduct, and the dataset that \<open>__init__\<close> builds
  from them with transforms that return the peaks and the smiles.
\<close>

definition demo_spectra :: "string spectrum list" where
  "demo_spectra =
     [\<lparr>metadata = [''id'' \<mapsto> ''5'', ''smiles'' \<mapsto> ''CCO'',
                   ''precursor_mz'' \<mapsto> ''47.05'', ''adduct'' \<mapsto> ''[M+H]+''],
       peaks = [(29, 1), (47, 3)]\<rparr>,
      \<lparr>metadata = [''id'' \<mapsto> ''6'', ''smiles'' \<mapsto> ''CO'', ''precursor_mz'' \<mapsto> ''33.03''],
       peaks = [(33, 1)]\<rparr>]"

definition demo_dataset :: "(string, (real \<times> real) list, string) mass_spec_dataset" where
  "demo_dataset =
     \<lparr>mgf_pth = ''demo.mgf'', spectra = demo_spectra, spectra_idx = [5, 6],
      spec_preproc = (\<lambda>s. Inr (peaks s)),
      mol_preproc = (\<lambda>v. case v of None \<Rightarrow> Inl TypeError | Some x \<Rightarrow> Inr x)\<rparr>"

definition demo_py_int :: "string option \<Rightarrow> error + int" where
  "demo_py_int v =
     (if v = Some ''5'' then Inr 5 else if v = Some ''6'' then Inr 6
      else if v = None then Inl TypeError else Inl ValueError)"

text \<open>
  A data module over that dataset and three split files: a regular one, one whose ids
  occur twice, and one without a \<open>test\<close> row.
\<close>

definition demo_dm :: "(string, (real \<times> real) list, string) data_module" where
  "demo_dm = MassSpecDataModule_init demo_dataset ''split.csv'' 32 0"

definition demo_split_csv :: data_frame where
  "demo_split_csv =
     [(''id'', [IntCell 5, IntCell 6, IntCell 7]),
      (''fold'', [StrCell ''train'', StrCell ''val'', StrCell ''test''])]"

definition demo_split :: series where
  "demo_split =
     [(IntCell 5, StrCell ''train''), (IntCell 6, StrCell ''val''), (IntCell 7, StrCell ''test'')]"

definition dup_split_csv :: data_frame where
  "dup_split_csv =
     [(''id'', [IntCell 5, IntCell 5, IntCell 6, IntCell 6]),
      (''fold'', [StrCell ''train'', StrCell ''val'', StrCell ''test'', StrCell ''test''])]"

definition dup_split :: series where
  "dup_split =
     [(IntCell 5, StrCell ''train''), (IntCell 5, StrCell ''val''),
      (IntCell 6, StrCell ''test''), (IntCell 6, StrCell ''test'')]"

definition no_test_split_csv :: data_frame where
  "no_test_split_csv =
     [(''id'', [IntCell 5, IntCell 6]), (''fold'', [StrCell ''train'', StrCell ''val''])]"

text \<open>
  A model whose helpers are simple stand-ins: the cosine distance is constant, the
  transforms are the identity, the constructors record their arguments.
\<close>

definition demo_utils :: sim_utils where
  "demo_utils =
     \<lparr>sparse_cosine_distance = (\<lambda>tm tl tb pm pl pb mx res. Inr [1 / 4, 3 / 4]),
      safelog = (\<lambda>x. Inr x),
      batched_l1_normalize = (\<lambda>x i. Inr x),
      get_ints_transform_func = (\<lambda>name x. Inr x),
      get_ints_untransform_func = (\<lambda>name x i. Inr x)\<rparr>"

definition demo_hparams :: hparams where
  "demo_hparams =
     \<lparr>optimizer = ''adam'', lr = 1 / 1000, weight_decay = 0, lr_schedule = True,
      ints_transform = ''log10'', mz_max = 1000, mz_bin_res = 1 / 100,
      train_sample_weight = True, eval_sample_weight = False,
      lr_decay_rate = 1 / 2, lr_warmup_steps = 100, lr_decay_steps = 1000\<rparr>"

definition demo_model :: "(nat, unit) sim_model" where
  "demo_model =
     \<lparr>hparams = demo_hparams, parameters = 0,
      forward = (\<lambda>b. Inr \<lparr>fwd_pred_mzs = [10, 20], fwd_pred_logprobs = [0, 0],
                             fwd_pred_batch_idxs = [0, 1]\<rparr>),
      metric_d = [(''train_cos'', ([1, 2], [2, 2])), (''val_cos'', ([3], [4]))],
      logged = [], subclass_attrs = []\<rparr>"

definition demo_batch :: "unit batch" where
  "demo_batch =
     \<lparr>spec_mzs = [10, 20], spec_ints = [1, 1], spec_batch_idxs = [0, 1],
      weight = [1, 3], other = ()\<rparr>"

definition demo_lib :: "(nat, optimizer_cls \<times> nat \<times> real \<times> real, string) optim_lib" where
  "demo_lib =
     \<lparr>torch_optim = (\<lambda>cls ps l wd. Inr (cls, ps, l, wd)),
      build_lr_scheduler = (\<lambda>opt dr ws ds. Inr ''warmup_decay'')\<rparr>"

section \<open>Auxiliary facts\<close>

lemma and_then_Inr:
  "and_then m f = Inr y \<longleftrightarrow> (\<exists>x. m = Inr x \<and> f x = Inr y)"
  by (cases m) simp_all

lemma list_getitem_nat:
  "0 \<le> i \<Longrightarrow> i < int (length xs) \<Longrightarrow> list_getitem xs i = Inr (xs ! nat i)"
  by (simp add: list_getitem_def Let_def)

lemma map_raise_length:
  "map_raise f xs = Inr ys \<Longrightarrow> length ys = length xs"
  by (induction xs arbitrary: ys) (auto simp: and_then_Inr)

lemma map_raise_all:
  "\<forall>x \<in> set xs. \<exists>y. f x = Inr y \<Longrightarrow>
   \<exists>ys. map_raise f xs = Inr ys \<and> length ys = length xs \<and> (\<forall>n<length xs. f (xs ! n) = Inr (ys ! n))"
proof (induction xs)
  case Nil
  then show ?case by simp
next
  case (Cons x xs)
  then obtain y where y: "f x = Inr y" by auto
  from Cons obtain ys where ys: "map_raise f xs = Inr ys" "length ys = length xs"
     "\<forall>n<length xs. f (xs ! n) = Inr (ys ! n)" by auto
  have "\<forall>n<length (x # xs). f ((x # xs) ! n) = Inr ((y # ys) ! n)"
    using y ys(3) by (simp add: nth_Cons split: nat.split)
  then show ?case using y ys(1,2) by simp
qed

text \<open>
  \<open>str_contains\<close> is the contiguous-sublist relation of the list library.
\<close>

lemma str_contains_sublist: "str_contains p s \<longleftrightarrow> sublist p s"
  by (induction s) (simp_all add: sublist_Cons_right)

lemma sum_list_map2_mult:
  "length xs = length ys \<Longrightarrow>
   sum_list (map2 (*) xs ys) = (\<Sum>i<length xs. xs ! i * (ys ! i :: real))"
proof -
  assume len: "length xs = length ys"
  have "sum_list (map2 (*) xs ys) = (\<Sum>i<length (map2 (*) xs ys). map2 (*) xs ys ! i)"
    by (simp only: sum_list_sum_nth atLeast0LessThan)
  also have "\<dots> = (\<Sum>i<length xs. xs ! i * ys ! i)"
    using len by simp
  finally show ?thesis .
qed

lemma sum_list_nth_real: "sum_list xs = (\<Sum>i<length xs. (xs ! i :: real))"
  by (simp only: sum_list_sum_nth atLeast0LessThan)

lemma map2_mult_ones:
  "map2 (*) xs (replicate (length xs) (1::real)) = xs"
  by (induction xs) simp_all

lemma torch_mul_same_length:
  "length xs = length ys \<Longrightarrow> \<exists>zs. torch_mul xs ys = Inr zs"
  by (simp add: torch_mul_def)

lemma reduce_fn_returns:
  "length scores = length weights \<Longrightarrow> \<exists>r. get_batch_metric_reduce_fn sw scores weights = Inr r"
  by (simp add: get_batch_metric_reduce_fn_def torch_mul_def ones_like_def Let_def)

section \<open>The batch reduction (C1)\<close>

text \<open>
  C1. For score and weight vectors of equal length, the reduction with
  \<open>sample_weight=True\<close> returns the weighted mean (the sum of \<open>score_i * weight_i\<close>
  divided by the sum of \<open>weight_i\<close>), the weighted score total and the weight total.
  With \<open>sample_weight=False\<close> the weights are replaced by ones: the first component is
  the arithmetic mean of the scores and the third is the number of scores.
\<close>

theorem batch_metric_reduce_correct:
  assumes "length scores = length weights"
  shows "get_batch_metric_reduce_fn True scores weights =
           Inr (torch_div (\<Sum>i<length scores. scores ! i * weights ! i)
                          (\<Sum>i<length weights. weights ! i),
                (\<Sum>i<length scores. scores ! i * weights ! i),
                (\<Sum>i<length weights. weights ! i))
       \<and> get_batch_metric_reduce_fn False scores weights =
           Inr (torch_div (\<Sum>i<length scores. scores ! i) (real (length scores)),
                (\<Sum>i<length scores. scores ! i),
                real (length scores))"
proof (rule conjI)
  show "get_batch_metric_reduce_fn True scores weights =
           Inr (torch_div (\<Sum>i<length scores. scores ! i * weights ! i)
                          (\<Sum>i<length weights. weights ! i),
                (\<Sum>i<length scores. scores ! i * weights ! i),
                (\<Sum>i<length weights. weights ! i))"
    using assms sum_list_map2_mult [OF assms] sum_list_nth_real [of weights]
    by (simp add: get_batch_metric_reduce_fn_def torch_mul_def torch_sum_def Let_def)
  have ones: "sum_list (replicate (length weights) (1::real)) = real (length weights)"
    by (simp add: sum_list_replicate)
  show "get_batch_metric_reduce_fn False scores weights =
           Inr (torch_div (\<Sum>i<length scores. scores ! i) (real (length scores)),
                (\<Sum>i<length scores. scores ! i),
                real (length scores))"
    using assms map2_mult_ones [of scores] sum_list_nth_real [of scores] ones
    by (simp add: get_batch_metric_reduce_fn_def torch_mul_def torch_sum_def ones_like_def Let_def)
qed

text \<open>
  At the scores \<open>[1, 3]\<close> with the weights \<open>[1, 3]\<close>: the weighted mean is
  \<open>10 / 4\<close>, the plain mean \<open>4 / 2\<close>.
\<close>

theorem batch_metric_reduce_correct_witness:
  "get_batch_metric_reduce_fn True [1, 3] [1, 3] = Inr (Finite (5 / 2), 10, 4) \<and>
   get_batch_metric_reduce_fn False [1, 3] [1, 3] = Inr (Finite 2, 4, 2)"
proof -
  have len: "length [1, 3 :: real] = length [1, 3 :: real]" by simp
  show ?thesis
    using batch_metric_reduce_correct [OF len]
    by (simp add: torch_div_def lessThan_Suc numeral_2_eq_2)
qed

section \<open>The loss of a step (C2)\<close>

text \<open>
  C2. Whenever \<open>step\<close> returns, the per-sample loss is the sparse cosine distance,
  binned with \<open>hparams.mz_max\<close> and \<open>hparams.mz_bin_res\<close>, between the spectrum that
  \<open>forward\<close> predicts and the true spectrum after preprocessing (intensities times
  1000, the configured transform, the normalisation per spectrum, then \<open>safelog\<close>),
  and the \<open>loss\<close> entry of the returned dict is the first component of the batch
  reduction of these distances with the batch weights: the train reduction exactly when
  \<open>metric_pref\<close> is \<open>train_\<close>, the eval reduction otherwise. And \<open>step\<close> does return
  when the helpers and \<open>forward\<close> return, there are as many distances as weights, and
  the predicted batch indices are not empty.
\<close>

theorem step_loss:
  "(\<forall>out self'. step U self batch metric_pref = Inr (out, self') \<longrightarrow>
      (\<exists>ints1 ints2 true_logprobs fw ds r.
          get_ints_transform_func U (ints_transform (hparams self))
            (map (\<lambda>x. x * 1000) (spec_ints batch)) = Inr ints1
        \<and> batched_l1_normalize U ints1 (spec_batch_idxs batch) = Inr ints2
        \<and> safelog U ints2 = Inr true_logprobs
        \<and> forward self batch = Inr fw
        \<and> sparse_cosine_distance U (spec_mzs batch) true_logprobs (spec_batch_idxs batch)
            (fwd_pred_mzs fw) (fwd_pred_logprobs fw) (fwd_pred_batch_idxs fw)
            (mz_max (hparams self)) (mz_bin_res (hparams self)) = Inr ds
        \<and> (if metric_pref = ''train_'' then train_reduce_fn self else eval_reduce_fn self)
            ds (weight batch) = Inr r
        \<and> out ''loss'' = Some (ScalarT (fst r))))
   \<and> (\<forall>ints1 ints2 true_logprobs fw ds.
          get_ints_transform_func U (ints_transform (hparams self))
            (map (\<lambda>x. x * 1000) (spec_ints batch)) = Inr ints1
        \<and> batched_l1_normalize U ints1 (spec_batch_idxs batch) = Inr ints2
        \<and> safelog U ints2 = Inr true_logprobs
        \<and> forward self batch = Inr fw
        \<and> sparse_cosine_distance U (spec_mzs batch) true_logprobs (spec_batch_idxs batch)
            (fwd_pred_mzs fw) (fwd_pred_logprobs fw) (fwd_pred_batch_idxs fw)
            (mz_max (hparams self)) (mz_bin_res (hparams self)) = Inr ds
        \<and> length ds = length (weight batch)
        \<and> fwd_pred_batch_idxs fw \<noteq> []
        \<longrightarrow> (\<exists>out self'. step U self batch metric_pref = Inr (out, self')))"
proof (intro conjI allI impI)
  fix out self'
  assume "step U self batch metric_pref = Inr (out, self')"
  then show "\<exists>ints1 ints2 true_logprobs fw ds r.
          get_ints_transform_func U (ints_transform (hparams self))
            (map (\<lambda>x. x * 1000) (spec_ints batch)) = Inr ints1
        \<and> batched_l1_normalize U ints1 (spec_batch_idxs batch) = Inr ints2
        \<and> safelog U ints2 = Inr true_logprobs
        \<and> forward self batch = Inr fw
        \<and> sparse_cosine_distance U (spec_mzs batch) true_logprobs (spec_batch_idxs batch)
            (fwd_pred_mzs fw) (fwd_pred_logprobs fw) (fwd_pred_batch_idxs fw)
            (mz_max (hparams self)) (mz_bin_res (hparams self)) = Inr ds
        \<and> (if metric_pref = ''train_'' then train_reduce_fn self else eval_reduce_fn self)
            ds (weight batch) = Inr r
        \<and> out ''loss'' = Some (ScalarT (fst r))"
    unfolding step_def preproc_spec_def loss_fn_def Let_def and_then_Inr
    by (elim exE conjE) (auto simp: and_then_Inr)
next
  fix ints1 ints2 true_logprobs fw ds
  assume a: "get_ints_transform_func U (ints_transform (hparams self))
            (map (\<lambda>x. x * 1000) (spec_ints batch)) = Inr ints1
        \<and> batched_l1_normalize U ints1 (spec_batch_idxs batch) = Inr ints2
        \<and> safelog U ints2 = Inr true_logprobs
        \<and> forward self batch = Inr fw
        \<and> sparse_cosine_distance U (spec_mzs batch) true_logprobs (spec_batch_idxs batch)
            (fwd_pred_mzs fw) (fwd_pred_logprobs fw) (fwd_pred_batch_idxs fw)
            (mz_max (hparams self)) (mz_bin_res (hparams self)) = Inr ds
        \<and> length ds = length (weight batch)
        \<and> fwd_pred_batch_idxs fw \<noteq> []"
  define reduce_fn where "reduce_fn =
     (if metric_pref = ''train_'' then train_reduce_fn self else eval_reduce_fn self)"
  have "\<exists>r. reduce_fn ds (weight batch) = Inr r"
    using a reduce_fn_returns unfolding reduce_fn_def train_reduce_fn_def eval_reduce_fn_def
    by simp
  then obtain r where r: "reduce_fn ds (weight batch) = Inr r" by blast
  obtain m where m: "torch_max (fwd_pred_batch_idxs fw) = Inr m"
    using a by (cases "fwd_pred_batch_idxs fw") (simp_all add: torch_max_def)
  show "\<exists>out self'. step U self batch metric_pref = Inr (out, self')"
    using a r m unfolding reduce_fn_def
    by (cases r) (simp add: step_def preproc_spec_def loss_fn_def Let_def)
qed

text \<open>
  On the example batch the distances are \<open>[1/4, 3/4]\<close> and the weights \<open>[1, 3]\<close>:
  the weighted mean is \<open>5/8\<close>.
\<close>

theorem step_loss_witness:
  "\<exists>out self'. step demo_utils demo_model demo_batch ''train_'' = Inr (out, self')
       \<and> out ''loss'' = Some (ScalarT (Finite (5 / 8)))"
proof -
  note t = step_loss [of demo_utils demo_model demo_batch "''train_''"]
  define fw where "fw = \<lparr>fwd_pred_mzs = [10, 20], fwd_pred_logprobs = [0, 0],
                             fwd_pred_batch_idxs = [0, 1]\<rparr>"
  have e: "get_ints_transform_func demo_utils (ints_transform (hparams demo_model))
            (map (\<lambda>x. x * 1000) (spec_ints demo_batch)) = Inr [1000, 1000]
        \<and> batched_l1_normalize demo_utils [1000, 1000] (spec_batch_idxs demo_batch)
            = Inr [1000, 1000]
        \<and> safelog demo_utils [1000, 1000] = Inr [1000, 1000]
        \<and> forward demo_model demo_batch = Inr fw
        \<and> sparse_cosine_distance demo_utils (spec_mzs demo_batch) [1000, 1000]
            (spec_batch_idxs demo_batch)
            (fwd_pred_mzs fw) (fwd_pred_logprobs fw) (fwd_pred_batch_idxs fw)
            (mz_max (hparams demo_model)) (mz_bin_res (hparams demo_model)) = Inr [1 / 4, 3 / 4]
        \<and> length [1 / 4, 3 / 4 :: real] = length (weight demo_batch)
        \<and> fwd_pred_batch_idxs fw \<noteq> []"
    by (simp add: demo_utils_def demo_model_def demo_batch_def fw_def)
  from conjunct2 [OF t, rule_format, OF e]
  obtain out self' where st: "step demo_utils demo_model demo_batch ''train_'' = Inr (out, self')"
    by blast
  from conjunct1 [OF t, rule_format, OF st]
  obtain ints1 ints2 true_logprobs fw' ds r where r:
    "get_ints_transform_func demo_utils (ints_transform (hparams demo_model))
            (map (\<lambda>x. x * 1000) (spec_ints demo_batch)) = Inr ints1"
    "batched_l1_normalize demo_utils ints1 (spec_batch_idxs demo_batch) = Inr ints2"
    "safelog demo_utils ints2 = Inr true_logprobs"
    "forward demo_model demo_batch = Inr fw'"
    "sparse_cosine_distance demo_utils (spec_mzs demo_batch) true_logprobs
            (spec_batch_idxs demo_batch)
            (fwd_pred_mzs fw') (fwd_pred_logprobs fw') (fwd_pred_batch_idxs fw')
            (mz_max (hparams demo_model)) (mz_bin_res (hparams demo_model)) = Inr ds"
    "(if ''train_'' = ''train_'' then train_reduce_fn demo_model else eval_reduce_fn demo_model)
            ds (weight demo_batch) = Inr r"
    "out ''loss'' = Some (ScalarT (fst r))"
    by blast
  have ds: "ds = [1 / 4, 3 / 4]"
    using r(5) by (simp add: demo_utils_def)
  have "train_reduce_fn demo_model [1 / 4, 3 / 4] (weight demo_batch)
          = Inr (Finite (5 / 8), 5 / 2, 4)"
    by (simp add: train_reduce_fn_def demo_model_def demo_hparams_def demo_batch_def
          get_batch_metric_reduce_fn_def torch_mul_def torch_sum_def torch_div_def Let_def)
  then have "r = (Finite (5 / 8), 5 / 2, 4)"
    using r(6) unfolding ds by simp
  then have "out ''loss'' = Some (ScalarT (Finite (5 / 8)))"
    using r(7) by simp
  then show ?thesis using st by blast
qed

section \<open>Cosine similarity and cosine distance (C3)\<close>

text \<open>
  C3. On matched inputs the function that \<open>get_cos_sim_fn(untransform=False)\<close>
  returns is one minus the loss function that \<open>_setup_loss_fn\<close> installs (and raises
  what it raises): entry by entry, similarity and distance add up to 1.
\<close>

theorem cos_sim_is_one_minus_loss:
  "get_cos_sim_fn U self False pred_mzs pred_logprobs pred_batch_idxs
       true_mzs true_logprobs true_batch_idxs =
     map_sum id (map (\<lambda>d. 1 - d))
       (loss_fn U self true_mzs true_logprobs true_batch_idxs
          pred_mzs pred_logprobs pred_batch_idxs)
   \<and> (\<forall>ds. loss_fn U self true_mzs true_logprobs true_batch_idxs
               pred_mzs pred_logprobs pred_batch_idxs = Inr ds \<longrightarrow>
         (\<exists>cs. get_cos_sim_fn U self False pred_mzs pred_logprobs pred_batch_idxs
                  true_mzs true_logprobs true_batch_idxs = Inr cs
              \<and> length cs = length ds \<and> (\<forall>i<length ds. cs ! i + ds ! i = 1)))"
proof -
  define r where "r = loss_fn U self true_mzs true_logprobs true_batch_idxs
          pred_mzs pred_logprobs pred_batch_idxs"
  have g: "get_cos_sim_fn U self False pred_mzs pred_logprobs pred_batch_idxs
       true_mzs true_logprobs true_batch_idxs = and_then r (\<lambda>cos_dist. Inr (map (\<lambda>d. 1 - d) cos_dist))"
    by (simp add: get_cos_sim_fn_def loss_fn_def r_def)
  show ?thesis
    unfolding r_def [symmetric] g by (cases r) simp_all
qed

theorem cos_sim_is_one_minus_loss_witness:
  "get_cos_sim_fn demo_utils demo_model False [10, 20] [0, 0] [0, 1] [10, 20] [0, 0] [0, 1]
     = Inr [3 / 4, 1 / 4]"
proof -
  have l: "loss_fn demo_utils demo_model [10, 20] [0, 0] [0, 1] [10, 20] [0, 0] [0, 1]
             = Inr [1 / 4, 3 / 4]"
    by (simp add: loss_fn_def demo_utils_def)
  have "get_cos_sim_fn demo_utils demo_model False [10, 20] [0, 0] [0, 1] [10, 20] [0, 0] [0, 1]
     = map_sum id (map (\<lambda>d. 1 - d)) (Inr [1 / 4, 3 / 4])"
    using conjunct1 [OF cos_sim_is_one_minus_loss
        [of demo_utils demo_model "[10, 20]" "[0, 0]" "[0, 1]" "[10, 20]" "[0, 0]" "[0, 1]"]]
    unfolding l .
  then show ?thesis by simp
qed

section \<open>The split into train, validation and test subsets (C4)\<close>

lemma series_getitem_once:
  assumes "appears_once s i"
  shows "\<exists>v. series_getitem s i = Inr [v] \<and> v \<in> snd ` set s"
proof -
  from assms obtain kv where kv: "filter (\<lambda>kv. fst kv = IntCell i) s = [kv]"
    unfolding appears_once_def by (auto simp: length_Suc_conv)
  have "kv \<in> set (filter (\<lambda>kv. fst kv = IntCell i) s)" by (simp add: kv)
  then have "kv \<in> set s" by simp
  then have "snd kv \<in> snd ` set s" by (rule imageI)
  moreover have "series_getitem s i = Inr [snd kv]"
    by (simp add: series_getitem_def kv)
  ultimately show ?thesis by blast
qed

lemma np_where0_singletons:
  "\<forall>r \<in> set rows. length r = 1 \<Longrightarrow>
   np_where0 name rows = filter (\<lambda>n. rows ! n = [StrCell name]) [0..<length rows]"
proof (induction rows rule: rev_induct)
  case Nil
  then show ?case by (simp add: np_where0_def)
next
  case (snoc r rows)
  then have IH: "np_where0 name rows = filter (\<lambda>n. rows ! n = [StrCell name]) [0..<length rows]"
    by simp
  from snoc.prems obtain c where c: "r = [c]" by (auto simp: length_Suc_conv)
  have f: "filter (\<lambda>n. (rows @ [r]) ! n = [StrCell name]) [0..<length rows]
         = filter (\<lambda>n. rows ! n = [StrCell name]) [0..<length rows]"
    by (rule filter_cong) (simp_all add: nth_append)
  have "np_where0 name (rows @ [r]) = np_where0 name rows @ (if c = StrCell name then [length rows] else [])"
    by (simp add: np_where0_def enumerate_append_eq c)
  then show ?case using IH f by (simp add: c)
qed

lemma prepare_data_Inr:
  assumes "prepare_data read_csv self0 = Inr self"
  shows "\<exists>s. self = self0\<lparr>split := Some s\<rparr> \<and>
             set (map snd s) = {StrCell ''train'', StrCell ''val'', StrCell ''test''}"
proof (cases "read_csv (split_pth self0)")
  case (Inl e)
  have "prepare_data read_csv self0 = Inl e"
    by (simp only: prepare_data_def Inl and_then.simps)
  then show ?thesis using assms by simp
next
  case (Inr df)
  define C where "C = (set (df_columns df) \<noteq> {''id'', ''fold''})"
  show ?thesis
  proof (cases "set_index_getitem df ''id'' ''fold''")
    case (Inl e)
    have "prepare_data read_csv self0 = (if C then Inl ValueError else Inl e)"
      by (simp only: prepare_data_def Inr Inl and_then.simps C_def)
    then show ?thesis using assms by (cases C) simp_all
  next
    case s: (Inr s)
    define D where "D = (set (map snd s) \<noteq> {StrCell ''train'', StrCell ''val'', StrCell ''test''})"
    have pd: "prepare_data read_csv self0 =
        (if C then Inl ValueError else if D then Inl ValueError
         else Inr (self0\<lparr>split := Some s\<rparr>))"
      by (simp only: prepare_data_def Inr s and_then.simps C_def D_def)
    have nC: "\<not> C"
    proof
      assume C
      then have "prepare_data read_csv self0 = Inl ValueError" by (simp only: pd if_True)
      then show False using assms by (simp only: sum.distinct)
    qed
    have nD: "\<not> D"
    proof
      assume D
      then have "prepare_data read_csv self0 = Inl ValueError" by (simp only: pd nC if_True if_False)
      then show False using assms by (simp only: sum.distinct)
    qed
    have "prepare_data read_csv self0 = Inr (self0\<lparr>split := Some s\<rparr>)"
      by (simp only: pd nC nD if_False)
    then have "Inr (self0\<lparr>split := Some s\<rparr>) = (Inr self :: error + _)"
      using assms by (rule subst)
    then have "self0\<lparr>split := Some s\<rparr> = self" by (simp only: sum.inject)
    then have "self = self0\<lparr>split := Some s\<rparr>" by (rule sym)
    moreover have "set (map snd s) = {StrCell ''train'', StrCell ''val'', StrCell ''test''}"
      using nD unfolding D_def by blast
    ultimately show ?thesis by blast
  qed
qed

text \<open>
  The index array of a dataset built by \<open>__init__\<close> has one entry per spectrum, so the
  positions of \<open>spectra_idx\<close> are the indices of the dataset.
\<close>

lemma init_spectra_idx_length:
  assumes "MassSpecDataset_init load_from_mgf py_int pth f g = Inr d"
  shows "length (spectra_idx d) = length (spectra d)"
proof -
  from assms obtain ss idx where l: "load_from_mgf pth = Inr ss"
    and m: "map_raise (\<lambda>s. py_int (metadata s ''id'')) ss = Inr idx"
    and d: "Inr \<lparr>mgf_pth = pth, spectra = ss, spectra_idx = idx,
                 spec_preproc = f, mol_preproc = g\<rparr> = (Inr d :: error + _)"
    unfolding MassSpecDataset_init_def and_then_Inr by blast
  from d have "d = \<lparr>mgf_pth = pth, spectra = ss, spectra_idx = idx,
                 spec_preproc = f, mol_preproc = g\<rparr>"
    by (simp only: sum.inject)
  then have "spectra_idx d = idx" "spectra d = ss" by simp_all
  then show ?thesis using map_raise_length [OF m] by simp
qed

text \<open>
  C4, as amended. After \<open>prepare_data\<close> has succeeded, and provided every id in the
  dataset's \<open>spectra_idx\<close> appears exactly once in the id column of the split file,
  \<open>setup\<close> returns, and the three subsets partition the dataset indices: every index
  \<open>n\<close> belongs to exactly one of them, the one named by the fold that the split assigns
  to the id of spectrum \<open>n\<close>; each subset lists its indices in increasing order.
\<close>

theorem setup_partitions:
  assumes prep: "prepare_data read_csv self0 = Inr self"
      and sp: "split self = Some s"
      and once: "\<forall>i \<in> set (spectra_idx (dataset self)). appears_once s i"
  shows "\<exists>tr va te.
           MassSpecDataModule_setup self =
             Inr (self\<lparr>train_dataset := Some tr, val_dataset := Some va, test_dataset := Some te\<rparr>)
         \<and> sorted_wrt (<) tr \<and> sorted_wrt (<) va \<and> sorted_wrt (<) te
         \<and> set tr \<union> set va \<union> set te \<subseteq> {..<length (spectra_idx (dataset self))}
         \<and> (\<forall>n < length (spectra_idx (dataset self)).
               \<exists>name \<in> {''train'', ''val'', ''test''}.
                 series_getitem s (spectra_idx (dataset self) ! n) = Inr [StrCell name]
               \<and> (n \<in> set tr \<longleftrightarrow> name = ''train'')
               \<and> (n \<in> set va \<longleftrightarrow> name = ''val'')
               \<and> (n \<in> set te \<longleftrightarrow> name = ''test''))"
proof -
  define idx where "idx = spectra_idx (dataset self)"
  define N where "N = length idx"
  from prepare_data_Inr [OF prep] obtain s' where s':
    "self = self0\<lparr>split := Some s'\<rparr>"
    "set (map snd s') = {StrCell ''train'', StrCell ''val'', StrCell ''test''}"
    by blast
  have "split self = Some s'" by (simp add: s'(1))
  then have ss: "s' = s" using sp by simp
  have folds: "snd ` set s = {StrCell ''train'', StrCell ''val'', StrCell ''test''}"
    using s'(2) unfolding ss by simp
  have ex: "\<forall>i \<in> set idx. \<exists>y. series_getitem s i = Inr y"
    using once series_getitem_once unfolding idx_def by blast
  from map_raise_all [OF ex] obtain rows where rows:
    "map_raise (series_getitem s) idx = Inr rows" "length rows = N"
    "\<forall>n<N. series_getitem s (idx ! n) = Inr (rows ! n)"
    unfolding N_def by blast
  have single: "\<forall>n<N. \<exists>v \<in> snd ` set s. rows ! n = [v]"
  proof (intro allI impI)
    fix n assume n: "n < N"
    then have "idx ! n \<in> set idx" unfolding N_def by simp
    then have "appears_once s (idx ! n)" using once unfolding idx_def by blast
    from series_getitem_once [OF this] obtain v where
      "series_getitem s (idx ! n) = Inr [v]" "v \<in> snd ` set s" by blast
    then show "\<exists>v \<in> snd ` set s. rows ! n = [v]" using rows(3) n by auto
  qed
  have len1: "\<forall>r \<in> set rows. length r = 1"
  proof
    fix r assume "r \<in> set rows"
    then obtain n where "n < N" "rows ! n = r" using rows(2) by (auto simp: in_set_conv_nth)
    then show "length r = 1" using single by fastforce
  qed
  have arr: "np_array rows = Inr rows"
  proof (cases rows)
    case Nil
    then show ?thesis by (simp add: np_array_def)
  next
    case (Cons r rs)
    then have "list_all (\<lambda>r'. length r' = length r) rs"
      using len1 by (simp add: list_all_iff)
    then show ?thesis using Cons by (simp add: np_array_def)
  qed
  define tr where "tr = np_where0 ''train'' rows"
  define va where "va = np_where0 ''val'' rows"
  define te where "te = np_where0 ''test'' rows"
  have w: "\<And>name. np_where0 name rows = filter (\<lambda>n. rows ! n = [StrCell name]) [0..<N]"
    using np_where0_singletons [OF len1] rows(2) by simp
  have run: "MassSpecDataModule_setup self =
      Inr (self\<lparr>train_dataset := Some tr, val_dataset := Some va, test_dataset := Some te\<rparr>)"
    unfolding MassSpecDataModule_setup_def tr_def va_def te_def
    by (simp only: sp getattr.simps and_then.simps rows(1) [unfolded idx_def] arr)
  have sorted: "\<And>name. sorted_wrt (<) (np_where0 name rows)"
    unfolding w by (rule sorted_wrt_filter) simp
  have mem: "\<And>name n. n \<in> set (np_where0 name rows) \<longleftrightarrow> n < N \<and> rows ! n = [StrCell name]"
    unfolding w by auto
  have sub: "set tr \<union> set va \<union> set te \<subseteq> {..<N}"
    unfolding tr_def va_def te_def using mem by auto
  have each: "\<forall>n<N. \<exists>name \<in> {''train'', ''val'', ''test''}.
                 series_getitem s (idx ! n) = Inr [StrCell name]
               \<and> (n \<in> set tr \<longleftrightarrow> name = ''train'')
               \<and> (n \<in> set va \<longleftrightarrow> name = ''val'')
               \<and> (n \<in> set te \<longleftrightarrow> name = ''test'')"
  proof (intro allI impI)
    fix n assume n: "n < N"
    from single n obtain v where v: "v \<in> snd ` set s" "rows ! n = [v]" by blast
    from v(1) folds obtain name where name: "name \<in> {''train'', ''val'', ''test''}" "v = StrCell name"
      by blast
    have g: "series_getitem s (idx ! n) = Inr [StrCell name]"
      using rows(3) n v(2) name(2) by simp
    have "\<And>nm. n \<in> set (np_where0 nm rows) \<longleftrightarrow> name = nm"
      unfolding mem using n v(2) name(2) by auto
    then have "series_getitem s (idx ! n) = Inr [StrCell name]
               \<and> (n \<in> set tr \<longleftrightarrow> name = ''train'')
               \<and> (n \<in> set va \<longleftrightarrow> name = ''val'')
               \<and> (n \<in> set te \<longleftrightarrow> name = ''test'')"
      using g unfolding tr_def va_def te_def by (simp only: simp_thms)
    then show "\<exists>name \<in> {''train'', ''val'', ''test''}.
                 series_getitem s (idx ! n) = Inr [StrCell name]
               \<and> (n \<in> set tr \<longleftrightarrow> name = ''train'')
               \<and> (n \<in> set va \<longleftrightarrow> name = ''val'')
               \<and> (n \<in> set te \<longleftrightarrow> name = ''test'')"
      using name(1) by (rule bexI)
  qed
  show ?thesis
  proof (rule exI [of _ tr], rule exI [of _ va], rule exI [of _ te], intro conjI)
    show "MassSpecDataModule_setup self =
      Inr (self\<lparr>train_dataset := Some tr, val_dataset := Some va, test_dataset := Some te\<rparr>)"
      by (fact run)
    show "sorted_wrt (<) tr" unfolding tr_def by (rule sorted)
    show "sorted_wrt (<) va" unfolding va_def by (rule sorted)
    show "sorted_wrt (<) te" unfolding te_def by (rule sorted)
    show "set tr \<union> set va \<union> set te \<subseteq> {..<length (spectra_idx (dataset self))}"
      using sub unfolding N_def idx_def .
    show "\<forall>n < length (spectra_idx (dataset self)).
               \<exists>name \<in> {''train'', ''val'', ''test''}.
                 series_getitem s (spectra_idx (dataset self) ! n) = Inr [StrCell name]
               \<and> (n \<in> set tr \<longleftrightarrow> name = ''train'')
               \<and> (n \<in> set va \<longleftrightarrow> name = ''val'')
               \<and> (n \<in> set te \<longleftrightarrow> name = ''test'')"
      using each unfolding N_def idx_def .
  qed
qed

lemma demo_prepare:
  "prepare_data (\<lambda>p. Inr demo_split_csv) demo_dm = Inr (demo_dm\<lparr>split := Some demo_split\<rparr>)"
  by (simp add: prepare_data_def demo_split_csv_def demo_split_def df_columns_def
        set_index_getitem_def)

theorem setup_partitions_witness:
  "prepare_data (\<lambda>p. Inr demo_split_csv) demo_dm = Inr (demo_dm\<lparr>split := Some demo_split\<rparr>)
   \<and> appears_once demo_split 5 \<and> appears_once demo_split 6
   \<and> (\<exists>tr va te.
         MassSpecDataModule_setup (demo_dm\<lparr>split := Some demo_split\<rparr>) =
           Inr (demo_dm\<lparr>split := Some demo_split, train_dataset := Some tr,
                        val_dataset := Some va, test_dataset := Some te\<rparr>)
       \<and> sorted_wrt (<) tr \<and> sorted_wrt (<) va \<and> sorted_wrt (<) te
       \<and> set tr \<union> set va \<union> set te \<subseteq> {..<2})"
proof -
  have sp: "split (demo_dm\<lparr>split := Some demo_split\<rparr>) = Some demo_split" by simp
  have o5: "appears_once demo_split 5" by (simp add: appears_once_def demo_split_def)
  have o6: "appears_once demo_split 6" by (simp add: appears_once_def demo_split_def)
  have idx: "spectra_idx (dataset (demo_dm\<lparr>split := Some demo_split\<rparr>)) = [5, 6]"
    by (simp add: demo_dm_def MassSpecDataModule_init_def demo_dataset_def)
  have once: "\<forall>i \<in> set (spectra_idx (dataset (demo_dm\<lparr>split := Some demo_split\<rparr>))).
                appears_once demo_split i"
    unfolding idx using o5 o6 by simp
  from setup_partitions [OF demo_prepare sp once] obtain tr va te where
    r: "MassSpecDataModule_setup (demo_dm\<lparr>split := Some demo_split\<rparr>) =
           Inr (demo_dm\<lparr>split := Some demo_split, train_dataset := Some tr,
                        val_dataset := Some va, test_dataset := Some te\<rparr>)"
      "sorted_wrt (<) tr" "sorted_wrt (<) va" "sorted_wrt (<) te"
      "set tr \<union> set va \<union> set te
         \<subseteq> {..<length (spectra_idx (dataset (demo_dm\<lparr>split := Some demo_split\<rparr>)))}"
    by blast
  have "length (spectra_idx (dataset (demo_dm\<lparr>split := Some demo_split\<rparr>))) = 2"
    unfolding idx by simp
  then have "set tr \<union> set va \<union> set te \<subseteq> {..<2}" using r(5) by simp
  then show ?thesis using demo_prepare o5 o6 r(1-4) by blast
qed

text \<open>
  With "appears" in place of "appears exactly once" the property fails. In the split file below the
  ids 5 and 6 occur twice; every id of the dataset occurs in it and \<open>prepare_data\<close>
  succeeds. The lookup of an id then yields both its folds, the mask has two columns, and
  index 0 lands in the train subset and in the validation subset, index 1 twice in the
  test subset.
\<close>

lemma dup_prepare:
  "prepare_data (\<lambda>p. Inr dup_split_csv) demo_dm = Inr (demo_dm\<lparr>split := Some dup_split\<rparr>)"
  by (simp add: prepare_data_def dup_split_csv_def dup_split_def df_columns_def
        set_index_getitem_def)

theorem setup_duplicate_ids:
  "prepare_data (\<lambda>p. Inr dup_split_csv) demo_dm = Inr (demo_dm\<lparr>split := Some dup_split\<rparr>)
   \<and> IntCell ` set (spectra_idx (dataset demo_dm)) \<subseteq> fst ` set dup_split
   \<and> MassSpecDataModule_setup (demo_dm\<lparr>split := Some dup_split\<rparr>) =
         Inr (demo_dm\<lparr>split := Some dup_split, train_dataset := Some [0],
                      val_dataset := Some [0], test_dataset := Some [1, 1]\<rparr>)"
proof -
  have a: "IntCell ` set (spectra_idx (dataset demo_dm)) \<subseteq> fst ` set dup_split"
    by (simp add: demo_dm_def MassSpecDataModule_init_def demo_dataset_def dup_split_def)
  have rows: "map_raise (series_getitem dup_split) (spectra_idx (dataset demo_dm))
              = Inr [[StrCell ''train'', StrCell ''val''], [StrCell ''test'', StrCell ''test'']]"
    by (simp add: demo_dm_def MassSpecDataModule_init_def demo_dataset_def dup_split_def
          series_getitem_def)
  have arr: "np_array [[StrCell ''train'', StrCell ''val''], [StrCell ''test'', StrCell ''test'']]
              = Inr [[StrCell ''train'', StrCell ''val''], [StrCell ''test'', StrCell ''test'']]"
    by (simp add: np_array_def)
  have w: "np_where0 ''train'' [[StrCell ''train'', StrCell ''val''], [StrCell ''test'', StrCell ''test'']] = [0]"
    "np_where0 ''val'' [[StrCell ''train'', StrCell ''val''], [StrCell ''test'', StrCell ''test'']] = [0]"
    "np_where0 ''test'' [[StrCell ''train'', StrCell ''val''], [StrCell ''test'', StrCell ''test'']] = [1, 1]"
    by (simp_all add: np_where0_def)
  have b: "MassSpecDataModule_setup (demo_dm\<lparr>split := Some dup_split\<rparr>) =
         Inr (demo_dm\<lparr>split := Some dup_split, train_dataset := Some [0],
                      val_dataset := Some [0], test_dataset := Some [1, 1]\<rparr>)"
    by (simp add: MassSpecDataModule_setup_def rows arr w)
  show ?thesis using dup_prepare a b by (intro conjI)
qed

section \<open>The hooks at the end of an epoch (C5)\<close>

lemma dict_del_present:
  "(k, v) \<in> set d \<Longrightarrow> dict_del d k = Inr (filter (\<lambda>kv. fst kv \<noteq> k) d)"
  by (force simp: dict_del_def)

lemma log_epoch_metrics_Inr:
  assumes "distinct (map fst kvs)" and "set kvs \<subseteq> set (metric_d self)"
    and "log_epoch_metrics kvs self = Inr self'"
  shows "logged self' = logged self @ map epoch_entry kvs
       \<and> metric_d self' = filter (\<lambda>kv. fst kv \<notin> fst ` set kvs) (metric_d self)"
  using assms
proof (induction kvs arbitrary: self)
  case Nil
  then show ?case by simp
next
  case (Cons kv kvs)
  obtain k v where kv: "kv = (k, v)" by (cases kv)
  have inD: "(k, v) \<in> set (metric_d self)" using Cons.prems(2) kv by simp
  define self1 where "self1 = self\<lparr>logged := logged self @ [epoch_entry (k, v)]\<rparr>"
  define self2 where "self2 = self1\<lparr>metric_d := filter (\<lambda>kv. fst kv \<noteq> k) (metric_d self)\<rparr>"
  have del: "dict_del (metric_d self) k = Inr (filter (\<lambda>kv. fst kv \<noteq> k) (metric_d self))"
    using inD by (rule dict_del_present)
  from Cons.prems(3) have ne: "fst v \<noteq> []" "snd v \<noteq> []"
    unfolding kv by (auto simp: torch_stack_def and_then_Inr split: if_splits)
  have step: "log_epoch_metrics (kv # kvs) self = log_epoch_metrics kvs self2"
    unfolding kv using ne del
    by (simp add: torch_stack_def Let_def self1_def self2_def epoch_entry_def torch_sum_def)
  have rest: "log_epoch_metrics kvs self2 = Inr self'"
    using Cons.prems(3) step by simp
  have d: "distinct (map fst kvs)" using Cons.prems(1) by simp
  have knot: "k \<notin> fst ` set kvs" using Cons.prems(1) kv by simp
  have sub: "set kvs \<subseteq> set (metric_d self2)"
  proof
    fix x assume x: "x \<in> set kvs"
    then have "x \<in> set (metric_d self)" using Cons.prems(2) by auto
    moreover have "fst x \<noteq> k" using knot x by force
    ultimately show "x \<in> set (metric_d self2)" by (simp add: self2_def)
  qed
  from Cons.IH [OF d sub rest]
  have ih: "logged self' = logged self2 @ map epoch_entry kvs"
    "metric_d self' = filter (\<lambda>kv. fst kv \<notin> fst ` set kvs) (metric_d self2)"
    by simp_all
  have l: "logged self' = logged self @ map epoch_entry (kv # kvs)"
    using ih(1) by (simp add: self2_def self1_def kv)
  have m: "metric_d self' = filter (\<lambda>x. fst x \<notin> fst ` set (kv # kvs)) (metric_d self)"
    unfolding ih(2) by (simp add: self2_def kv conj_commute)
  show ?case using l m by simp
qed

lemma log_epoch_metrics_returns:
  assumes "distinct (map fst kvs)" and "set kvs \<subseteq> set (metric_d self)"
    and "\<forall>kv \<in> set kvs. fst (snd kv) \<noteq> [] \<and> snd (snd kv) \<noteq> []"
  shows "\<exists>self'. log_epoch_metrics kvs self = Inr self'"
  using assms
proof (induction kvs arbitrary: self)
  case Nil
  then show ?case by simp
next
  case (Cons kv kvs)
  obtain k v where kv: "kv = (k, v)" by (cases kv)
  have inD: "(k, v) \<in> set (metric_d self)" using Cons.prems(2) kv by simp
  define self1 where "self1 = self\<lparr>logged := logged self @ [epoch_entry (k, v)]\<rparr>"
  define self2 where "self2 = self1\<lparr>metric_d := filter (\<lambda>kv. fst kv \<noteq> k) (metric_d self)\<rparr>"
  have del: "dict_del (metric_d self) k = Inr (filter (\<lambda>kv. fst kv \<noteq> k) (metric_d self))"
    using inD by (rule dict_del_present)
  have ne: "fst v \<noteq> []" "snd v \<noteq> []" using Cons.prems(3) kv by auto
  have step: "log_epoch_metrics (kv # kvs) self = log_epoch_metrics kvs self2"
    unfolding kv using ne del
    by (simp add: torch_stack_def Let_def self1_def self2_def epoch_entry_def torch_sum_def)
  have d: "distinct (map fst kvs)" using Cons.prems(1) by simp
  have knot: "k \<notin> fst ` set kvs" using Cons.prems(1) kv by simp
  have sub: "set kvs \<subseteq> set (metric_d self2)"
  proof
    fix x assume x: "x \<in> set kvs"
    then have "x \<in> set (metric_d self)" using Cons.prems(2) by auto
    moreover have "fst x \<noteq> k" using knot x by force
    ultimately show "x \<in> set (metric_d self2)" by (simp add: self2_def)
  qed
  have "\<forall>kv \<in> set kvs. fst (snd kv) \<noteq> [] \<and> snd (snd kv) \<noteq> []" using Cons.prems(3) by simp
  from Cons.IH [OF d sub this] show ?case unfolding step .
qed

lemma filter_keys_complement:
  "distinct (map fst d) \<Longrightarrow>
   filter (\<lambda>kv. fst kv \<notin> fst ` set (filter (\<lambda>kv. P (fst kv)) d)) d = filter (\<lambda>kv. \<not> P (fst kv)) d"
  by (rule filter_cong) force+

lemma selected_metrics:
  assumes "distinct (map fst (metric_d self))"
  shows "(\<forall>self'. log_epoch_metrics (filter (\<lambda>kv. str_contains p (fst kv)) (metric_d self)) self
                  = Inr self' \<longrightarrow>
            logged self' = logged self @
              map epoch_entry (filter (\<lambda>kv. str_contains p (fst kv)) (metric_d self))
          \<and> metric_d self' = filter (\<lambda>kv. \<not> str_contains p (fst kv)) (metric_d self))
       \<and> ((\<forall>kv \<in> set (metric_d self). str_contains p (fst kv) \<longrightarrow>
              fst (snd kv) \<noteq> [] \<and> snd (snd kv) \<noteq> []) \<longrightarrow>
           (\<exists>self'. log_epoch_metrics (filter (\<lambda>kv. str_contains p (fst kv)) (metric_d self)) self
                  = Inr self'))"
proof -
  define kvs where "kvs = filter (\<lambda>kv. str_contains p (fst kv)) (metric_d self)"
  have d: "distinct (map fst kvs)"
    unfolding kvs_def using assms by (rule distinct_map_filter)
  have sub: "set kvs \<subseteq> set (metric_d self)" unfolding kvs_def by simp
  have compl: "filter (\<lambda>kv. fst kv \<notin> fst ` set kvs) (metric_d self)
             = filter (\<lambda>kv. \<not> str_contains p (fst kv)) (metric_d self)"
    unfolding kvs_def using assms by (rule filter_keys_complement)
  have a: "\<forall>self'. log_epoch_metrics kvs self = Inr self' \<longrightarrow>
            logged self' = logged self @ map epoch_entry kvs
          \<and> metric_d self' = filter (\<lambda>kv. \<not> str_contains p (fst kv)) (metric_d self)"
    using log_epoch_metrics_Inr [OF d sub] unfolding compl by blast
  have b: "(\<forall>kv \<in> set (metric_d self). str_contains p (fst kv) \<longrightarrow>
              fst (snd kv) \<noteq> [] \<and> snd (snd kv) \<noteq> []) \<longrightarrow>
           (\<exists>self'. log_epoch_metrics kvs self = Inr self')"
  proof
    assume "\<forall>kv \<in> set (metric_d self). str_contains p (fst kv) \<longrightarrow>
              fst (snd kv) \<noteq> [] \<and> snd (snd kv) \<noteq> []"
    then have "\<forall>kv \<in> set kvs. fst (snd kv) \<noteq> [] \<and> snd (snd kv) \<noteq> []"
      unfolding kvs_def by simp
    then show "\<exists>self'. log_epoch_metrics kvs self = Inr self'"
      by (rule log_epoch_metrics_returns [OF d sub])
  qed
  show ?thesis using a b unfolding kvs_def by (rule conjI)
qed

text \<open>
  C5. When \<open>on_train_epoch_end\<close> returns, the log has received, for every entry of
  \<open>metric_d\<close> whose key contains \<open>train_\<close>, in order, the key with the sum of its
  weighted score totals divided by the sum of its weight totals; exactly those entries
  are gone from \<open>metric_d\<close> and the others are unchanged. The same holds for
  \<open>on_validation_epoch_end\<close> and \<open>val_\<close>. Each hook returns when no selected entry has
  an empty list of totals. The keys of a dict are distinct.
\<close>

theorem epoch_end_logs_and_deletes:
  assumes "distinct (map fst (metric_d self))"
  shows "(\<forall>self'. on_train_epoch_end self = Inr self' \<longrightarrow>
            logged self' = logged self @
              map epoch_entry (filter (\<lambda>kv. str_contains ''train_'' (fst kv)) (metric_d self))
          \<and> metric_d self' = filter (\<lambda>kv. \<not> str_contains ''train_'' (fst kv)) (metric_d self))
       \<and> ((\<forall>kv \<in> set (metric_d self). str_contains ''train_'' (fst kv) \<longrightarrow>
              fst (snd kv) \<noteq> [] \<and> snd (snd kv) \<noteq> []) \<longrightarrow>
           (\<exists>self'. on_train_epoch_end self = Inr self'))
       \<and> (\<forall>self'. on_validation_epoch_end self = Inr self' \<longrightarrow>
            logged self' = logged self @
              map epoch_entry (filter (\<lambda>kv. str_contains ''val_'' (fst kv)) (metric_d self))
          \<and> metric_d self' = filter (\<lambda>kv. \<not> str_contains ''val_'' (fst kv)) (metric_d self))
       \<and> ((\<forall>kv \<in> set (metric_d self). str_contains ''val_'' (fst kv) \<longrightarrow>
              fst (snd kv) \<noteq> [] \<and> snd (snd kv) \<noteq> []) \<longrightarrow>
           (\<exists>self'. on_validation_epoch_end self = Inr self'))"
proof -
  note t = selected_metrics [OF assms, of "''train_''", folded on_train_epoch_end_def]
  note v = selected_metrics [OF assms, of "''val_''", folded on_validation_epoch_end_def]
  show ?thesis
    using conjunct1 [OF t] conjunct2 [OF t] conjunct1 [OF v] conjunct2 [OF v]
    by (intro conjI)
qed

theorem epoch_end_logs_and_deletes_witness:
  "\<exists>self'. on_train_epoch_end demo_model = Inr self'
       \<and> logged self' = [\<lparr>log_name = ''train_cos'', log_value = Finite (3 / 4),
                             log_batch_size = None, log_prog_bar = False\<rparr>]
       \<and> metric_d self' = [(''val_cos'', ([3], [4]))]"
proof -
  have d: "distinct (map fst (metric_d demo_model))" by (simp add: demo_model_def)
  note t = epoch_end_logs_and_deletes [OF d]
  have ne: "\<forall>kv \<in> set (metric_d demo_model). str_contains ''train_'' (fst kv) \<longrightarrow>
              fst (snd kv) \<noteq> [] \<and> snd (snd kv) \<noteq> []"
    by (simp add: demo_model_def)
  from mp [OF conjunct1 [OF conjunct2 [OF t]] ne]
  obtain self' where s: "on_train_epoch_end demo_model = Inr self'" by (rule exE)
  have sel: "filter (\<lambda>kv. str_contains ''train_'' (fst kv)) (metric_d demo_model)
               = [(''train_cos'', ([1, 2], [2, 2]))]"
    by (simp add: demo_model_def)
  have rest: "filter (\<lambda>kv. \<not> str_contains ''train_'' (fst kv)) (metric_d demo_model)
               = [(''val_cos'', ([3], [4]))]"
    by (simp add: demo_model_def)
  from conjunct1 [OF t, rule_format, OF s]
  have "logged self' = logged demo_model @ map epoch_entry [(''train_cos'', ([1, 2], [2, 2]))]"
    and m: "metric_d self' = [(''val_cos'', ([3], [4]))]"
    unfolding sel rest by (rule conjunct1, rule conjunct2)
  then have "logged self' = [\<lparr>log_name = ''train_cos'', log_value = Finite (3 / 4),
                             log_batch_size = None, log_prog_bar = False\<rparr>]"
    by (simp add: demo_model_def epoch_entry_def torch_div_def)
  then show ?thesis using s m by blast
qed

section \<open>Optimizer construction (C6, C9)\<close>

text \<open>
  C6. For \<open>hparams.optimizer\<close> equal to \<open>adam\<close>, \<open>adamw\<close> or \<open>sgd\<close>, the dict
  that \<open>configure_optimizers\<close> returns has as its \<open>optimizer\<close> entry the optimizer that
  the constructor of \<open>Adam\<close>, \<open>AdamW\<close> or \<open>SGD\<close> builds over the model parameters
  with \<open>hparams.lr\<close> and \<open>hparams.weight_decay\<close>, and it has an \<open>lr_scheduler\<close> entry
  if and only if \<open>hparams.lr_schedule\<close> is true. The method returns when the constructor
  returns and, with \<open>lr_schedule\<close> true, \<open>build_lr_scheduler\<close> returns.
\<close>

theorem configure_optimizers_known:
  assumes "(name, cls) \<in> {(''adam'', Adam), (''adamw'', AdamW), (''sgd'', SGD)}"
    and "optimizer (hparams self) = name"
  shows "(\<forall>ret. configure_optimizers L self = Inr ret \<longrightarrow>
            (\<exists>opt. torch_optim L cls (parameters self) (lr (hparams self))
                      (weight_decay (hparams self)) = Inr opt
                 \<and> ret ''optimizer'' = Some (Optimizer opt))
            \<and> (''lr_scheduler'' \<in> dom ret \<longleftrightarrow> lr_schedule (hparams self)))
       \<and> (\<forall>opt. torch_optim L cls (parameters self) (lr (hparams self))
                   (weight_decay (hparams self)) = Inr opt
               \<and> (lr_schedule (hparams self) \<longrightarrow>
                    (\<exists>sched. build_lr_scheduler L opt (lr_decay_rate (hparams self))
                       (lr_warmup_steps (hparams self)) (lr_decay_steps (hparams self)) = Inr sched))
               \<longrightarrow> (\<exists>ret. configure_optimizers L self = Inr ret))"
proof -
  have c: "(if optimizer (hparams self) = ''adam'' then Inr Adam
        else if optimizer (hparams self) = ''adamw'' then Inr AdamW
        else if optimizer (hparams self) = ''sgd'' then Inr SGD
        else Inl (unknown_optimizer self)) = Inr cls"
    using assms by auto
  have u: "configure_optimizers L self =
     and_then
       (torch_optim L cls (parameters self)
          (lr (hparams self)) (weight_decay (hparams self)))
       (\<lambda>opt.
     if lr_schedule (hparams self) then
       and_then (build_lr_scheduler L opt (lr_decay_rate (hparams self))
                   (lr_warmup_steps (hparams self)) (lr_decay_steps (hparams self))) (\<lambda>sched.
       Inr ([''optimizer'' \<mapsto> Optimizer opt, ''lr_scheduler'' \<mapsto>
              LrScheduler \<lparr>scheduler = sched, frequency = 1, interval = ''step''\<rparr>]))
     else Inr [''optimizer'' \<mapsto> Optimizer opt])"
    unfolding configure_optimizers_def c and_then.simps Let_def ..
  show ?thesis
  proof (cases "torch_optim L cls (parameters self) (lr (hparams self))
                  (weight_decay (hparams self))")
    case (Inl e)
    then show ?thesis unfolding u by simp
  next
    case opt: (Inr opt)
    show ?thesis
    proof (cases "lr_schedule (hparams self)")
      case False
      then show ?thesis unfolding u opt by simp
    next
      case True
      show ?thesis
      proof (cases "build_lr_scheduler L opt (lr_decay_rate (hparams self))
                   (lr_warmup_steps (hparams self)) (lr_decay_steps (hparams self))")
        case (Inl e)
        then show ?thesis unfolding u opt using True by simp
      next
        case (Inr sched)
        then show ?thesis unfolding u opt using True by auto
      qed
    qed
  qed
qed

theorem configure_optimizers_known_witness:
  "\<exists>ret. configure_optimizers demo_lib demo_model = Inr ret
       \<and> ret ''optimizer'' = Some (Optimizer (Adam, 0, 1 / 1000, 0))
       \<and> ''lr_scheduler'' \<in> dom ret"
proof -
  have h1: "(''adam'', Adam) \<in> {(''adam'', Adam), (''adamw'', AdamW), (''sgd'', SGD)}" by simp
  have h2: "optimizer (hparams demo_model) = ''adam''"
    by (simp add: demo_model_def demo_hparams_def)
  note t = configure_optimizers_known [OF h1 h2, of demo_lib]
  have o: "torch_optim demo_lib Adam (parameters demo_model) (lr (hparams demo_model))
             (weight_decay (hparams demo_model)) = Inr (Adam, 0, 1 / 1000, 0)"
    by (simp add: demo_lib_def demo_model_def demo_hparams_def)
  have s: "lr_schedule (hparams demo_model)" by (simp add: demo_model_def demo_hparams_def)
  have b: "\<exists>sched. build_lr_scheduler demo_lib (Adam, 0, 1 / 1000, 0)
             (lr_decay_rate (hparams demo_model)) (lr_warmup_steps (hparams demo_model))
             (lr_decay_steps (hparams demo_model)) = Inr sched"
    by (simp add: demo_lib_def)
  from conjunct2 [OF t, rule_format, OF conjI [OF o impI [OF b]]]
  obtain ret where ret: "configure_optimizers demo_lib demo_model = Inr ret" by (rule exE)
  from conjunct1 [OF t, rule_format, OF ret]
  have "(\<exists>opt. torch_optim demo_lib Adam (parameters demo_model) (lr (hparams demo_model))
                      (weight_decay (hparams demo_model)) = Inr opt
                 \<and> ret ''optimizer'' = Some (Optimizer opt))"
     and d: "''lr_scheduler'' \<in> dom ret \<longleftrightarrow> lr_schedule (hparams demo_model)"
    by (rule conjunct1, rule conjunct2)
  then obtain opt where "Inr (Adam, 0, 1 / 1000, 0) = (Inr opt :: error + _)"
      "ret ''optimizer'' = Some (Optimizer opt)"
    unfolding o by blast
  then have "ret ''optimizer'' = Some (Optimizer (Adam, 0, 1 / 1000, 0))" by simp
  then show ?thesis using ret d s by blast
qed

text \<open>
  C9. For every other value of \<open>hparams.optimizer\<close>, \<open>configure_optimizers\<close> raises
  and constructs no optimizer: the outcome is the same whatever the constructor is. The
  exception is \<open>AttributeError\<close>, from reading \<open>self.optimizer\<close> while the message
  is formatted, when no attribute of that name exists.
\<close>

theorem configure_optimizers_unknown:
  assumes "optimizer (hparams self) \<notin> {''adam'', ''adamw'', ''sgd''}"
  shows "(\<exists>e. configure_optimizers L self = Inl e)
       \<and> configure_optimizers (L\<lparr>torch_optim := ctor\<rparr>) self = configure_optimizers L self
       \<and> (''optimizer'' \<notin> set (subclass_attrs self) \<longrightarrow>
            configure_optimizers L self = Inl AttributeError)"
proof -
  have n: "optimizer (hparams self) \<noteq> ''adam''" "optimizer (hparams self) \<noteq> ''adamw''"
    "optimizer (hparams self) \<noteq> ''sgd''"
    using assms by blast+
  have r: "\<And>L'. configure_optimizers L' self = Inl (unknown_optimizer self)"
    by (simp only: configure_optimizers_def n if_False and_then.simps)
  show ?thesis
    by (simp add: r unknown_optimizer_def)
qed

theorem configure_optimizers_unknown_witness:
  "configure_optimizers demo_lib
     (demo_model\<lparr>hparams := demo_hparams\<lparr>optimizer := ''rmsprop''\<rparr>\<rparr>) = Inl AttributeError"
proof -
  have h: "optimizer (hparams (demo_model\<lparr>hparams := demo_hparams\<lparr>optimizer := ''rmsprop''\<rparr>\<rparr>))
             \<notin> {''adam'', ''adamw'', ''sgd''}"
    by simp
  have a: "''optimizer'' \<notin> set (subclass_attrs
             (demo_model\<lparr>hparams := demo_hparams\<lparr>optimizer := ''rmsprop''\<rparr>\<rparr>))"
    by (simp add: demo_model_def)
  note t = configure_optimizers_unknown [OF h, of demo_lib "torch_optim demo_lib"]
  show ?thesis
    by (rule conjunct2 [OF conjunct2 [OF t], rule_format, OF a])
qed

section \<open>Items of the dataset (C7)\<close>

text \<open>
  C7, as amended. For every index \<open>i\<close> with \<open>0 \<le> i\<close> below the dataset length on
  whose spectrum the two transforms return: if the metadata of the spectrum has
  \<open>precursor_mz\<close> and \<open>adduct\<close>, \<open>__getitem__(i)\<close> returns the dict of exactly the
  preprocessed spectrum under \<open>spec\<close>, the preprocessed smiles under \<open>mol\<close> and
  these two metadata values; if either is absent it raises \<open>KeyError\<close>. And \<open>__len__\<close>
  of a dataset that \<open>__init__\<close> has built is the number of spectra parsed.
\<close>

theorem getitem_returns_item:
  assumes "0 \<le> i" and "i < MassSpecDataset_len self"
    and "spec_preproc self (spectra self ! nat i) = Inr sp"
    and "mol_preproc self (metadata (spectra self ! nat i) ''smiles'') = Inr m"
  shows "(metadata (spectra self ! nat i) ''precursor_mz'' = Some pm \<and>
          metadata (spectra self ! nat i) ''adduct'' = Some ad \<longrightarrow>
            MassSpecDataset_getitem self i =
              Inr [''spec'' \<mapsto> Spec sp, ''mol'' \<mapsto> Mol m,
                   ''precursor_mz'' \<mapsto> Meta pm, ''adduct'' \<mapsto> Meta ad])
       \<and> (metadata (spectra self ! nat i) ''precursor_mz'' = None \<or>
          metadata (spectra self ! nat i) ''adduct'' = None \<longrightarrow>
            MassSpecDataset_getitem self i = Inl KeyError)
       \<and> (\<forall>ss. MassSpecDataset_init load_from_mgf py_int pth f g = Inr d \<and>
                load_from_mgf pth = Inr ss \<longrightarrow>
                MassSpecDataset_len d = int (length ss))"
proof -
  define s where "s = spectra self ! nat i"
  have s: "list_getitem (spectra self) i = Inr s"
    using assms(1,2) unfolding s_def MassSpecDataset_len_def by (rule list_getitem_nat)
  have a: "metadata s ''precursor_mz'' = Some pm \<and> metadata s ''adduct'' = Some ad \<longrightarrow>
            MassSpecDataset_getitem self i =
              Inr [''spec'' \<mapsto> Spec sp, ''mol'' \<mapsto> Mol m,
                   ''precursor_mz'' \<mapsto> Meta pm, ''adduct'' \<mapsto> Meta ad]"
    using assms(3,4) unfolding s_def [symmetric]
    by (simp add: MassSpecDataset_getitem_def s Let_def)
  have b: "metadata s ''precursor_mz'' = None \<or> metadata s ''adduct'' = None \<longrightarrow>
            MassSpecDataset_getitem self i = Inl KeyError"
  proof (cases "metadata s ''precursor_mz''")
    case None
    then show ?thesis using assms(3,4) unfolding s_def [symmetric]
      by (simp add: MassSpecDataset_getitem_def s Let_def)
  next
    case (Some v)
    then show ?thesis using assms(3,4) unfolding s_def [symmetric]
      by (simp add: MassSpecDataset_getitem_def s Let_def)
  qed
  have c: "\<forall>ss. MassSpecDataset_init load_from_mgf py_int pth f g = Inr d \<and>
                load_from_mgf pth = Inr ss \<longrightarrow>
                MassSpecDataset_len d = int (length ss)"
  proof (intro allI impI, elim conjE)
    fix ss
    assume i: "MassSpecDataset_init load_from_mgf py_int pth f g = Inr d"
      and l: "load_from_mgf pth = Inr ss"
    from i obtain idx where "d = \<lparr>mgf_pth = pth, spectra = ss, spectra_idx = idx,
          spec_preproc = f, mol_preproc = g\<rparr>"
      unfolding MassSpecDataset_init_def l and_then.simps and_then_Inr by auto
    then show "MassSpecDataset_len d = int (length ss)"
      by (simp add: MassSpecDataset_len_def)
  qed
  show ?thesis using a b c unfolding s_def by (intro conjI)
qed

theorem getitem_returns_item_witness:
  "MassSpecDataset_getitem demo_dataset 0 =
     Inr [''spec'' \<mapsto> Spec [(29, 1), (47, 3)], ''mol'' \<mapsto> Mol ''CCO'',
          ''precursor_mz'' \<mapsto> Meta ''47.05'', ''adduct'' \<mapsto> Meta ''[M+H]+'']
   \<and> MassSpecDataset_len demo_dataset = 2"
proof -
  have h1: "(0::int) \<le> 0" by simp
  have h2: "0 < MassSpecDataset_len demo_dataset"
    by (simp add: MassSpecDataset_len_def demo_dataset_def demo_spectra_def)
  have h3: "spec_preproc demo_dataset (spectra demo_dataset ! nat 0) = Inr [(29, 1), (47, 3)]"
    by (simp add: demo_dataset_def demo_spectra_def)
  have h4: "mol_preproc demo_dataset (metadata (spectra demo_dataset ! nat 0) ''smiles'')
              = Inr ''CCO''"
    by (simp add: demo_dataset_def demo_spectra_def)
  have k: "metadata (spectra demo_dataset ! nat 0) ''precursor_mz'' = Some ''47.05'' \<and>
           metadata (spectra demo_dataset ! nat 0) ''adduct'' = Some ''[M+H]+''"
    by (simp add: demo_dataset_def demo_spectra_def)
  have i: "MassSpecDataset_init (\<lambda>p. Inr demo_spectra) demo_py_int ''demo.mgf''
             (\<lambda>s. Inr (peaks s)) (\<lambda>v. case v of None \<Rightarrow> Inl TypeError | Some x \<Rightarrow> Inr x)
           = Inr demo_dataset \<and> (\<lambda>p. Inr demo_spectra) ''demo.mgf'' = Inr demo_spectra"
    by (simp add: MassSpecDataset_init_def demo_dataset_def demo_spectra_def demo_py_int_def)
  note t = getitem_returns_item [OF h1 h2 h3 h4, of "''47.05''" "''[M+H]+''"
      "\<lambda>p. Inr demo_spectra" demo_py_int "''demo.mgf''" "\<lambda>s. Inr (peaks s)"
      "\<lambda>v. case v of None \<Rightarrow> Inl TypeError | Some x \<Rightarrow> Inr x" demo_dataset]
  have a: "MassSpecDataset_getitem demo_dataset 0 =
     Inr [''spec'' \<mapsto> Spec [(29, 1), (47, 3)], ''mol'' \<mapsto> Mol ''CCO'',
          ''precursor_mz'' \<mapsto> Meta ''47.05'', ''adduct'' \<mapsto> Meta ''[M+H]+'']"
    using conjunct1 [OF t] k by (rule mp)
  have "MassSpecDataset_len demo_dataset = int (length demo_spectra)"
    by (rule conjunct2 [OF conjunct2 [OF t], rule_format, OF i])
  then have b: "MassSpecDataset_len demo_dataset = 2" by (simp add: demo_spectra_def)
  show ?thesis using a b by (rule conjI)
qed

text \<open>
  Without the condition on the metadata the property fails: the second example spectrum has
  no adduct, index 1 is below the length, and \<open>__getitem__(1)\<close> raises.
\<close>

theorem getitem_missing_adduct:
  "(0::int) \<le> 1 \<and> 1 < MassSpecDataset_len demo_dataset
   \<and> MassSpecDataset_getitem demo_dataset 1 = Inl KeyError"
  by (simp add: MassSpecDataset_len_def MassSpecDataset_getitem_def list_getitem_def
        demo_dataset_def demo_spectra_def)

section \<open>RetrievalDataset (C8)\<close>

text \<open>
  C8. \<open>RetrievalDataset\<close> is a function of one argument: for every argument, once the
  default argument of its inner \<open>__init__\<close> has been evaluated, the call returns
  \<open>None\<close> and no dataset object.
\<close>

theorem RetrievalDataset_returns_None:
  "MolToInChIKey = Inr t \<Longrightarrow> RetrievalDataset MolToInChIKey x = Inr None"
  by (simp add: RetrievalDataset_def)

theorem RetrievalDataset_returns_None_witness:
  "RetrievalDataset (Inr ()) demo_dataset =
     (Inr None :: error + (string, (real \<times> real) list, string) mass_spec_dataset option)"
proof -
  have "(Inr () :: error + unit) = Inr ()" by (rule refl)
  then show ?thesis by (rule RetrievalDataset_returns_None)
qed

section \<open>Validation of the split file (C10)\<close>

lemma map_of_in_cols:
  assumes "c \<in> set (df_columns df)"
  shows "\<exists>vs. map_of df c = Some vs \<and> (c, vs) \<in> set df"
proof -
  have "map_of df c \<noteq> None"
    using assms by (simp add: df_columns_def map_of_eq_None_iff)
  then obtain vs where "map_of df c = Some vs" by blast
  then show ?thesis using map_of_SomeD by fast
qed

lemma set_index_fold_values:
  assumes "df_rectangular df" "set (df_columns df) = {''id'', ''fold''}"
  shows "\<exists>s. set_index_getitem df ''id'' ''fold'' = Inr s \<and> map snd s = df_column df ''fold''
     \<and> map fst s = df_column df ''id''"
proof -
  have "''id'' \<in> set (df_columns df)" by (simp add: assms(2))
  then obtain ids where ids: "map_of df ''id'' = Some ids" "(''id'', ids) \<in> set df"
    using map_of_in_cols by blast
  have "''fold'' \<in> set (df_columns df)" by (simp add: assms(2))
  then obtain fs where fs: "map_of df ''fold'' = Some fs" "(''fold'', fs) \<in> set df"
    using map_of_in_cols by blast
  have "length (snd (''id'', ids)) = length (snd (''fold'', fs))"
    using assms(1) ids(2) fs(2) unfolding df_rectangular_def by blast
  then have "length ids = length fs" by simp
  then show ?thesis
    by (simp add: set_index_getitem_def ids(1) fs(1) df_column_def)
qed

text \<open>
  C10. On the frame that \<open>pd.read_csv\<close> returns, \<open>prepare_data\<close> raises
  \<open>ValueError\<close> if and only if the set of column names is not \<open>{id, fold}\<close> or the
  set of values of the fold column is not \<open>{train, val, test}\<close>; it raises nothing
  else; and a fold column whose values are a strict subset of the three is rejected.
\<close>

theorem prepare_data_raises_iff:
  assumes "read_csv (split_pth self) = Inr df" "df_rectangular df"
  shows "(prepare_data read_csv self = Inl ValueError \<longleftrightarrow>
            set (df_columns df) \<noteq> {''id'', ''fold''} \<or> set (df_column df ''fold'') \<noteq> folds)
       \<and> (\<forall>e. prepare_data read_csv self = Inl e \<longrightarrow> e = ValueError)
       \<and> (set (df_columns df) = {''id'', ''fold''} \<and> set (df_column df ''fold'') \<subset> folds
            \<longrightarrow> prepare_data read_csv self = Inl ValueError)"
proof (cases "set (df_columns df) = {''id'', ''fold''}")
  case False
  then show ?thesis using assms(1) by (simp add: prepare_data_def)
next
  case True
  then obtain s where s: "set_index_getitem df ''id'' ''fold'' = Inr s"
      "map snd s = df_column df ''fold''"
    using set_index_fold_values [OF assms(2)] by blast
  have pd: "prepare_data read_csv self =
      (if set (df_column df ''fold'') \<noteq> folds then Inl ValueError
       else Inr (self\<lparr>split := Some s\<rparr>))"
  proof -
    have eq: "set (map snd s) = set (df_column df ''fold'')"
      using s(2) by simp
    show ?thesis
      unfolding prepare_data_def folds_def [symmetric]
      by (simp only: assms(1) and_then.simps True s(1) eq folds_def [symmetric] simp_thms if_False)
  qed
  show ?thesis
  proof (cases "set (df_column df ''fold'') = folds")
    case eq: True
    have "prepare_data read_csv self = Inr (self\<lparr>split := Some s\<rparr>)"
      by (simp only: pd eq simp_thms if_False)
    then show ?thesis using True eq by simp
  next
    case neq: False
    have "prepare_data read_csv self = Inl ValueError"
      by (simp only: pd neq simp_thms if_True)
    then show ?thesis using neq by simp
  qed
qed

text \<open>
  A split file with a train row and a validation row, and no test row, is rejected.
\<close>

theorem prepare_data_raises_iff_witness:
  "prepare_data (\<lambda>p. Inr no_test_split_csv) demo_dm = Inl ValueError"
proof -
  have h1: "(\<lambda>p. Inr no_test_split_csv) (split_pth demo_dm) = Inr no_test_split_csv" by simp
  have h2: "df_rectangular no_test_split_csv"
    by (simp add: df_rectangular_def no_test_split_csv_def)
  have c: "set (df_columns no_test_split_csv) = {''id'', ''fold''}"
    by (simp add: df_columns_def no_test_split_csv_def)
  have v: "set (df_column no_test_split_csv ''fold'') = {StrCell ''train'', StrCell ''val''}"
    by (simp add: df_column_def no_test_split_csv_def)
  have f: "set (df_column no_test_split_csv ''fold'') \<subset> folds"
    unfolding v
  proof (rule psubsetI)
    show "{StrCell ''train'', StrCell ''val''} \<subseteq> folds" by (simp add: folds_def)
    show "{StrCell ''train'', StrCell ''val''} \<noteq> folds"
    proof
      assume e: "{StrCell ''train'', StrCell ''val''} = folds"
      have "StrCell ''test'' \<in> folds" by (simp add: folds_def)
      then have "StrCell ''test'' \<in> {StrCell ''train'', StrCell ''val''}"
        unfolding e [symmetric] .
      then show False by simp
    qed
  qed
  note t = prepare_data_raises_iff [OF h1 h2]
  show ?thesis
    by (rule conjunct2 [OF conjunct2 [OF t], rule_format, OF conjI [OF c f]])
qed

end
